theory Spec2Isabelle
  imports Complex_Main "HOL-Library.Sublist"
begin

section \<open>Entity model of \<open>asteroids-game.ts\<close>\<close>

text \<open>
  The TypeScript \<open>number\<close> type is modelled by \<^typ>\<open>real\<close>: the properties proved
  below rest on comparisons, list structure and control flow, and the rounding of
  arithmetic operations is not modelled. Decimal literals are read as the decimals
  written, except the two of \<open>createAsteroidVertices\<close>, read as the doubles they
  denote. Counters that only ever hold integers (\<open>life\<close>, \<open>invincibleTime\<close>, \<open>score\<close>) are \<^typ>\<open>int\<close>.
  Field names carry a prefix where several interfaces of the source share a name.
\<close>

record Vector2D =
  vx :: real
  vy :: real

record Ship =
  ship_position :: Vector2D
  ship_velocity :: Vector2D
  ship_rotation :: real
  ship_thrust :: bool
  ship_vertices :: "Vector2D list"

record Asteroid =
  ast_position :: Vector2D
  ast_velocity :: Vector2D
  ast_rotation :: real
  rotationSpeed :: real
  ast_size :: real
  ast_vertices :: "Vector2D list"

record Bullet =
  blt_position :: Vector2D
  blt_velocity :: Vector2D
  life :: int

record Star =
  star_x :: real
  star_y :: real
  brightness :: real
  twinkleSpeed :: real
  twinkleOffset :: real

record Vertex =
  vert_x :: real
  vert_y :: real
  vert_r :: real
  vert_g :: real
  vert_b :: real
  vert_a :: real

text \<open>
  The game object. \<open>Math.random()\<close> is the sequence \<open>rand\<close> read at \<open>cursor\<close>;
  every call advances the cursor by one. The \<open>keys\<close> dictionary is a partial map; a
  missing key reads as \<open>undefined\<close>, which is falsy.
\<close>

record Game =
  width :: real
  height :: real
  ship :: Ship
  asteroids :: "Asteroid list"
  bullets :: "Bullet list"
  stars :: "Star list"
  score :: int
  keys :: "string \<rightharpoonup> bool"
  gameOver :: bool
  invincibleTime :: int
  rand :: "nat \<Rightarrow> real"
  cursor :: nat

definition SHIP_SIZE :: real where "SHIP_SIZE = 20"
definition SHIP_THRUST :: real where "SHIP_THRUST = 15 / 100"
definition SHIP_FRICTION :: real where "SHIP_FRICTION = 99 / 100"
definition SHIP_ROTATION_SPEED :: real where "SHIP_ROTATION_SPEED = 8 / 100"
definition BULLET_SPEED :: real where "BULLET_SPEED = 8"
definition BULLET_LIFE :: int where "BULLET_LIFE = 60"
definition MAX_ASTEROIDS :: nat where "MAX_ASTEROIDS = 15"
definition ASTEROID_SPEED :: real where "ASTEROID_SPEED = 15 / 10"
definition STAR_COUNT :: nat where "STAR_COUNT = 100"

definition truthy :: "bool option \<Rightarrow> bool" where
  "truthy v = (v = Some True)"

subsection \<open>wrapPosition\<close>

text \<open>Four sequential \<open>if\<close> statements; the second of each pair sees the first's result.\<close>

definition wrapPosition :: "real \<Rightarrow> real \<Rightarrow> Vector2D \<Rightarrow> Vector2D" where
  "wrapPosition w h pos =
     (let p1 = (if vx pos < 0 then pos\<lparr>vx := w\<rparr> else pos);
          p2 = (if vx p1 > w then p1\<lparr>vx := 0\<rparr> else p1);
          p3 = (if vy p2 < 0 then p2\<lparr>vy := h\<rparr> else p2);
          p4 = (if vy p3 > h then p3\<lparr>vy := 0\<rparr> else p3)
      in p4)"

definition inField :: "real \<Rightarrow> real \<Rightarrow> Vector2D \<Rightarrow> bool" where
  "inField w h p = (0 \<le> vx p \<and> vx p \<le> w \<and> 0 \<le> vy p \<and> vy p \<le> h)"

subsection \<open>Construction of entities\<close>

definition createShip :: "real \<Rightarrow> real \<Rightarrow> Ship" where
  "createShip w h =
     \<lparr>ship_position = \<lparr>vx = w / 2, vy = h / 2\<rparr>,
      ship_velocity = \<lparr>vx = 0, vy = 0\<rparr>,
      ship_rotation = - pi / 2,
      ship_thrust = False,
      ship_vertices =
        [\<lparr>vx = SHIP_SIZE, vy = 0\<rparr>,
         \<lparr>vx = - SHIP_SIZE * (7 / 10), vy = - SHIP_SIZE * (6 / 10)\<rparr>,
         \<lparr>vx = - SHIP_SIZE * (4 / 10), vy = 0\<rparr>,
         \<lparr>vx = - SHIP_SIZE * (7 / 10), vy = SHIP_SIZE * (6 / 10)\<rparr>]\<rparr>"

text \<open>
  The literals \<open>0.6\<close> and \<open>0.4\<close> of \<open>createAsteroidVertices\<close> are the doubles nearest to
  these decimals: \<open>5404319552844595 / 2\<^sup>5\<^sup>3\<close>, just below \<open>6/10\<close>, and
  \<open>3602879701896397 / 2\<^sup>5\<^sup>3\<close>, just above \<open>4/10\<close>. They are kept as these values
  here, because the distance of an outline vertex from \<open>0.6 \<sdot> size\<close> is decided by
  the difference. The operations on them are those of \<^typ>\<open>real\<close>, as for every
  \<open>number\<close> of the program: the rounding of each operation is not modelled.
\<close>

definition double_0_6 :: real where
  "double_0_6 = 5404319552844595 / 9007199254740992"

definition double_0_4 :: real where
  "double_0_4 = 3602879701896397 / 9007199254740992"

text \<open>
  One iteration of the loop of \<open>createAsteroidVertices\<close>: vertex \<open>i\<close> of \<open>n\<close>, with
  \<open>r\<close> the value \<open>Math.random()\<close> returned in that iteration.
\<close>

definition createVertex :: "real \<Rightarrow> int \<Rightarrow> nat \<Rightarrow> real \<Rightarrow> Vector2D" where
  "createVertex sz n i r =
     (let angle = (real i / real_of_int n) * pi * 2;
          variance = double_0_6 + r * double_0_4
      in \<lparr>vx = cos angle * sz * variance, vy = sin angle * sz * variance\<rparr>)"

text \<open>
  \<open>createAsteroidVertices\<close>: one draw for the vertex count, then one draw per vertex;
  the \<open>for\<close> loop pushes one vertex per index \<open>0 \<le> i < numVertices\<close>.
\<close>

definition createAsteroidVertices :: "real \<Rightarrow> Game \<Rightarrow> Vector2D list \<times> Game" where
  "createAsteroidVertices sz s =
     (let numVertices = 8 + \<lfloor>rand s (cursor s) * 5\<rfloor>;
          c = Suc (cursor s)
      in (map (\<lambda>i. createVertex sz numVertices i (rand s (c + i))) [0..<nat numVertices],
          s\<lparr>cursor := c + nat numVertices\<rparr>))"

definition edgePosition :: "Game \<Rightarrow> Vector2D \<times> Game" where
  "edgePosition s =
     (let edge = \<lfloor>rand s (cursor s) * 4\<rfloor>;
          r = rand s (Suc (cursor s));
          s' = s\<lparr>cursor := cursor s + 2\<rparr>
      in (if edge = 0 then \<lparr>vx = 0, vy = r * height s\<rparr>
          else if edge = 1 then \<lparr>vx = width s, vy = r * height s\<rparr>
          else if edge = 2 then \<lparr>vx = r * width s, vy = 0\<rparr>
          else \<lparr>vx = r * width s, vy = height s\<rparr>, s'))"

definition spawnAsteroid :: "real \<Rightarrow> Vector2D option \<Rightarrow> Game \<Rightarrow> Game" where
  "spawnAsteroid sz position s =
     (if length (asteroids s) \<ge> MAX_ASTEROIDS then s
      else
        let (pos, s1) = (case position of Some p \<Rightarrow> (p, s) | None \<Rightarrow> edgePosition s);
            angle = rand s1 (cursor s1) * pi * 2;
            speed = (ASTEROID_SPEED * (100 - sz)) / 50;
            rspeed = (rand s1 (Suc (cursor s1)) - 1 / 2) * (4 / 100);
            (verts, s2) = createAsteroidVertices sz (s1\<lparr>cursor := cursor s1 + 2\<rparr>)
        in s2\<lparr>asteroids := asteroids s2 @
               [\<lparr>ast_position = pos,
                 ast_velocity = \<lparr>vx = cos angle * speed, vy = sin angle * speed\<rparr>,
                 ast_rotation = 0,
                 rotationSpeed = rspeed,
                 ast_size = sz,
                 ast_vertices = verts\<rparr>]\<rparr>)"

text \<open>The argument \<open>60 + Math.random() * 20\<close> is evaluated before each call.\<close>

fun initAsteroids :: "nat \<Rightarrow> Game \<Rightarrow> Game" where
  "initAsteroids 0 s = s"
| "initAsteroids (Suc n) s =
     initAsteroids n
       (spawnAsteroid (60 + rand s (cursor s) * 20) None (s\<lparr>cursor := Suc (cursor s)\<rparr>))"

fun initStars :: "nat \<Rightarrow> Game \<Rightarrow> Game" where
  "initStars 0 s = s"
| "initStars (Suc n) s =
     initStars n
       (s\<lparr>stars := stars s @
            [\<lparr>star_x = rand s (cursor s) * width s,
              star_y = rand s (cursor s + 1) * height s,
              brightness = 3 / 10 + rand s (cursor s + 2) * (7 / 10),
              twinkleSpeed = 2 / 100 + rand s (cursor s + 3) * (5 / 100),
              twinkleOffset = rand s (cursor s + 4) * pi * 2\<rparr>],
          cursor := cursor s + 5\<rparr>)"

text \<open>The constructor, given the surface size and the random sequence.\<close>

definition newGame :: "real \<Rightarrow> real \<Rightarrow> (nat \<Rightarrow> real) \<Rightarrow> Game" where
  "newGame w h rnd =
     initStars STAR_COUNT
       (initAsteroids 5
          \<lparr>width = w, height = h, ship = createShip w h, asteroids = [], bullets = [],
           stars = [], score = 0, keys = Map.empty, gameOver = False,
           invincibleTime = 120, rand = rnd, cursor = 0\<rparr>)"

definition restart :: "Game \<Rightarrow> Game" where
  "restart s =
     initAsteroids 5
       (s\<lparr>ship := createShip (width s) (height s), asteroids := [], bullets := [],
          score := 0, gameOver := False, invincibleTime := 120\<rparr>)"

definition fireBullet :: "Game \<Rightarrow> Game" where
  "fireBullet s =
     (if gameOver s then restart s
      else
        let sh = ship s in
        s\<lparr>bullets := bullets s @
            [\<lparr>blt_position =
                \<lparr>vx = vx (ship_position sh) + cos (ship_rotation sh) * SHIP_SIZE,
                 vy = vy (ship_position sh) + sin (ship_rotation sh) * SHIP_SIZE\<rparr>,
              blt_velocity =
                \<lparr>vx = cos (ship_rotation sh) * BULLET_SPEED + vx (ship_velocity sh) * (1 / 2),
                 vy = sin (ship_rotation sh) * BULLET_SPEED + vy (ship_velocity sh) * (1 / 2)\<rparr>,
              life = BULLET_LIFE\<rparr>]\<rparr>)"

subsection \<open>Input handling\<close>

text \<open>\<open>handleKey\<close> of \<open>setupControls\<close>, on the event's \<open>code\<close> and the pressed flag.\<close>

definition handleKey :: "string \<Rightarrow> bool \<Rightarrow> Game \<Rightarrow> Game" where
  "handleKey code pressed s =
     (if code = ''ArrowLeft'' \<or> code = ''KeyA'' then s\<lparr>keys := (keys s)(''left'' \<mapsto> pressed)\<rparr>
      else if code = ''ArrowRight'' \<or> code = ''KeyD'' then s\<lparr>keys := (keys s)(''right'' \<mapsto> pressed)\<rparr>
      else if code = ''ArrowUp'' \<or> code = ''KeyW'' then s\<lparr>keys := (keys s)(''up'' \<mapsto> pressed)\<rparr>
      else if code = ''Space'' then
        (let s1 = (if pressed \<and> \<not> truthy (keys s ''fire'') then fireBullet s else s)
         in s1\<lparr>keys := (keys s1)(''fire'' \<mapsto> pressed)\<rparr>)
      else s)"

subsection \<open>update\<close>

text \<open>The invincibility counter is decremented first, before any collision check.\<close>

definition tickInvincible :: "Game \<Rightarrow> Game" where
  "tickInvincible s =
     (if invincibleTime s > 0 then s\<lparr>invincibleTime := invincibleTime s - 1\<rparr> else s)"

text \<open>Rotation, thrust, friction, integration and wrapping of the ship.\<close>

definition moveShip :: "Game \<Rightarrow> Game" where
  "moveShip s =
     (let sh0 = ship s;
          sh1 = (if truthy (keys s ''left'')
                 then sh0\<lparr>ship_rotation := ship_rotation sh0 - SHIP_ROTATION_SPEED\<rparr> else sh0);
          sh2 = (if truthy (keys s ''right'')
                 then sh1\<lparr>ship_rotation := ship_rotation sh1 + SHIP_ROTATION_SPEED\<rparr> else sh1);
          sh3 = sh2\<lparr>ship_thrust := truthy (keys s ''up'')\<rparr>;
          sh4 = (if ship_thrust sh3
                 then sh3\<lparr>ship_velocity :=
                        \<lparr>vx = vx (ship_velocity sh3) + cos (ship_rotation sh3) * SHIP_THRUST,
                         vy = vy (ship_velocity sh3) + sin (ship_rotation sh3) * SHIP_THRUST\<rparr>\<rparr>
                 else sh3);
          sh5 = sh4\<lparr>ship_velocity :=
                        \<lparr>vx = vx (ship_velocity sh4) * SHIP_FRICTION,
                         vy = vy (ship_velocity sh4) * SHIP_FRICTION\<rparr>\<rparr>;
          sh6 = sh5\<lparr>ship_position :=
                        \<lparr>vx = vx (ship_position sh5) + vx (ship_velocity sh5),
                         vy = vy (ship_position sh5) + vy (ship_velocity sh5)\<rparr>\<rparr>;
          sh7 = sh6\<lparr>ship_position := wrapPosition (width s) (height s) (ship_position sh6)\<rparr>
      in s\<lparr>ship := sh7\<rparr>)"

text \<open>The callback of \<open>bullets.filter\<close>: it moves the bullet, then decides on its life.\<close>

definition moveBullet :: "real \<Rightarrow> real \<Rightarrow> Bullet \<Rightarrow> Bullet" where
  "moveBullet w h b =
     b\<lparr>blt_position := wrapPosition w h
          \<lparr>vx = vx (blt_position b) + vx (blt_velocity b),
           vy = vy (blt_position b) + vy (blt_velocity b)\<rparr>,
       life := life b - 1\<rparr>"

definition moveBullets :: "Game \<Rightarrow> Game" where
  "moveBullets s =
     s\<lparr>bullets := filter (\<lambda>b. life b > 0) (map (moveBullet (width s) (height s)) (bullets s))\<rparr>"

definition moveAsteroid :: "real \<Rightarrow> real \<Rightarrow> Asteroid \<Rightarrow> Asteroid" where
  "moveAsteroid w h a =
     a\<lparr>ast_position := wrapPosition w h
          \<lparr>vx = vx (ast_position a) + vx (ast_velocity a),
           vy = vy (ast_position a) + vy (ast_velocity a)\<rparr>,
       ast_rotation := ast_rotation a + rotationSpeed a\<rparr>"

definition moveAsteroids :: "Game \<Rightarrow> Game" where
  "moveAsteroids s = s\<lparr>asteroids := map (moveAsteroid (width s) (height s)) (asteroids s)\<rparr>"

definition bulletHits :: "Bullet \<Rightarrow> Asteroid \<Rightarrow> bool" where
  "bulletHits b a =
     (let dx = vx (blt_position b) - vx (ast_position a);
          dy = vy (blt_position b) - vy (ast_position a);
          distSquared = dx * dx + dy * dy;
          radiusSquared = ast_size a * ast_size a
      in distSquared < radiusSquared)"

text \<open>
  The inner loop \<open>for (j = asteroids.length - 1; j >= 0; j--)\<close>: \<open>findHit b as n\<close> tests
  the indices \<open>n - 1\<close> down to \<open>0\<close> and returns the first index that is hit.
\<close>

fun findHit :: "Bullet \<Rightarrow> Asteroid list \<Rightarrow> nat \<Rightarrow> nat option" where
  "findHit b as 0 = None"
| "findHit b as (Suc j) = (if bulletHits b (as ! j) then Some j else findHit b as j)"

text \<open>The body of the \<open>if (distSquared < radiusSquared)\<close> branch, for bullet \<open>i\<close>, asteroid \<open>j\<close>.\<close>

definition onHit :: "nat \<Rightarrow> nat \<Rightarrow> Game \<Rightarrow> Game" where
  "onHit i j s =
     (let removedAsteroid = asteroids s ! j;
          s1 = s\<lparr>bullets := take i (bullets s) @ drop (Suc i) (bullets s),
                 asteroids := take j (asteroids s) @ drop (Suc j) (asteroids s),
                 score := score s + \<lfloor>100 / ast_size removedAsteroid * 10\<rfloor>\<rparr>
      in if ast_size removedAsteroid > 25
         then let newSize = ast_size removedAsteroid * (1 / 2)
              in spawnAsteroid newSize (Some (ast_position removedAsteroid))
                   (spawnAsteroid newSize (Some (ast_position removedAsteroid)) s1)
         else s1)"

text \<open>
  The outer loop \<open>for (i = bullets.length - 1; i >= 0; i--)\<close>: \<open>bulletLoop n\<close> treats the
  bullets of index \<open>n - 1\<close> down to \<open>0\<close>. Removing bullet \<open>i\<close> leaves the lower indices
  in place, so every read \<open>bullets[i]\<close> is in range.
\<close>

fun bulletLoop :: "nat \<Rightarrow> Game \<Rightarrow> Game" where
  "bulletLoop 0 s = s"
| "bulletLoop (Suc i) s =
     bulletLoop i
       (case findHit (bullets s ! i) (asteroids s) (length (asteroids s)) of
          None \<Rightarrow> s
        | Some j \<Rightarrow> onHit i j s)"

definition bulletPass :: "Game \<Rightarrow> Game" where
  "bulletPass s = bulletLoop (length (bullets s)) s"

definition shipHits :: "Ship \<Rightarrow> Asteroid \<Rightarrow> bool" where
  "shipHits sh a =
     (let dx = vx (ship_position sh) - vx (ast_position a);
          dy = vy (ship_position sh) - vy (ast_position a);
          distSquared = dx * dx + dy * dy;
          collisionRadius = ast_size a + SHIP_SIZE * (1 / 2);
          radiusSquared = collisionRadius * collisionRadius
      in distSquared < radiusSquared)"

text \<open>The \<open>for ... of\<close> loop over the asteroids with its \<open>break\<close>.\<close>

fun shipCollides :: "Ship \<Rightarrow> Asteroid list \<Rightarrow> bool" where
  "shipCollides sh [] = False"
| "shipCollides sh (a # as) = (if shipHits sh a then True else shipCollides sh as)"

definition shipPass :: "Game \<Rightarrow> Game" where
  "shipPass s =
     (if invincibleTime s \<le> 0
      then (if shipCollides (ship s) (asteroids s) then s\<lparr>gameOver := True\<rparr> else s)
      else s)"

definition maintain :: "Game \<Rightarrow> Game" where
  "maintain s =
     (if length (asteroids s) < 3
      then spawnAsteroid (50 + rand s (cursor s) * 30) None (s\<lparr>cursor := Suc (cursor s)\<rparr>)
      else s)"

definition update :: "Game \<Rightarrow> Game" where
  "update s =
     (if gameOver s then s
      else maintain (shipPass (bulletPass (moveAsteroids (moveBullets (moveShip
             (tickInvincible s)))))))"

subsection \<open>Text as line segments\<close>

type_synonym Color = "real \<times> real \<times> real \<times> real"

definition colored :: "real \<Rightarrow> real \<Rightarrow> Color \<Rightarrow> Vertex" where
  "colored px py c =
     (case c of (r, g, b, a) \<Rightarrow>
        \<lparr>vert_x = px, vert_y = py, vert_r = r, vert_g = g, vert_b = b, vert_a = a\<rparr>)"

text \<open>The table of \<open>getCharacterSegments\<close>, each segment \<open>[x1, y1, x2, y2]\<close>.\<close>

definition segments :: "(char \<times> (real \<times> real \<times> real \<times> real) list) list" where
  "segments =
     [
      (CHR ''S'', [(1, 0, 0, 0), (0, 0, 0, 5 / 10), (0, 5 / 10, 1, 5 / 10), (1, 5 / 10, 1, 1), (1, 1, 0, 1)]),
      (CHR ''C'', [(1, 0, 0, 0), (0, 0, 0, 1), (0, 1, 1, 1)]),
      (CHR ''O'', [(0, 0, 1, 0), (1, 0, 1, 1), (1, 1, 0, 1), (0, 1, 0, 0)]),
      (CHR ''R'', [(0, 0, 0, 1), (0, 0, 1, 0), (1, 0, 1, 5 / 10), (1, 5 / 10, 0, 5 / 10), (0, 5 / 10, 1, 1)]),
      (CHR ''E'', [(1, 0, 0, 0), (0, 0, 0, 1), (0, 5 / 10, 8 / 10, 5 / 10), (0, 1, 1, 1)]),
      (CHR ''G'', [(1, 0, 0, 0), (0, 0, 0, 1), (0, 1, 1, 1), (1, 1, 1, 5 / 10), (1, 5 / 10, 5 / 10, 5 / 10)]),
      (CHR ''A'', [(0, 1, 5 / 10, 0), (5 / 10, 0, 1, 1), (2 / 10, 6 / 10, 8 / 10, 6 / 10)]),
      (CHR ''M'', [(0, 1, 0, 0), (0, 0, 5 / 10, 4 / 10), (5 / 10, 4 / 10, 1, 0), (1, 0, 1, 1)]),
      (CHR ''V'', [(0, 0, 5 / 10, 1), (5 / 10, 1, 1, 0)]),
      (CHR ''P'', [(0, 0, 0, 1), (0, 0, 1, 0), (1, 0, 1, 5 / 10), (1, 5 / 10, 0, 5 / 10)]),
      (CHR ''I'', [(5 / 10, 0, 5 / 10, 1), (2 / 10, 0, 8 / 10, 0), (2 / 10, 1, 8 / 10, 1)]),
      (CHR ''F'', [(0, 0, 0, 1), (0, 0, 1, 0), (0, 5 / 10, 8 / 10, 5 / 10)]),
      (CHR ''T'', [(0, 0, 1, 0), (5 / 10, 0, 5 / 10, 1)]),
      (CHR ''N'', [(0, 1, 0, 0), (0, 0, 1, 1), (1, 1, 1, 0)]),
      (CHR ''D'', [(0, 0, 0, 1), (0, 0, 8 / 10, 0), (8 / 10, 0, 1, 5 / 10), (1, 5 / 10, 8 / 10, 1), (8 / 10, 1, 0, 1)]),
      (CHR '' '', []),
      (CHR '':'', [(5 / 10, 2 / 10, 5 / 10, 3 / 10), (5 / 10, 7 / 10, 5 / 10, 8 / 10)]),
      (CHR ''0'', [(0, 0, 1, 0), (1, 0, 1, 1), (1, 1, 0, 1), (0, 1, 0, 0), (0, 0, 1, 1)]),
      (CHR ''1'', [(3 / 10, 2 / 10, 5 / 10, 0), (5 / 10, 0, 5 / 10, 1), (2 / 10, 1, 8 / 10, 1)]),
      (CHR ''2'', [(0, 0, 1, 0), (1, 0, 1, 5 / 10), (1, 5 / 10, 0, 5 / 10), (0, 5 / 10, 0, 1), (0, 1, 1, 1)]),
      (CHR ''3'', [(0, 0, 1, 0), (1, 0, 1, 1), (1, 1, 0, 1), (2 / 10, 5 / 10, 1, 5 / 10)]),
      (CHR ''4'', [(0, 0, 0, 5 / 10), (0, 5 / 10, 1, 5 / 10), (1, 0, 1, 1)]),
      (CHR ''5'', [(1, 0, 0, 0), (0, 0, 0, 5 / 10), (0, 5 / 10, 1, 5 / 10), (1, 5 / 10, 1, 1), (1, 1, 0, 1)]),
      (CHR ''6'', [(1, 0, 0, 0), (0, 0, 0, 1), (0, 1, 1, 1), (1, 1, 1, 5 / 10), (1, 5 / 10, 0, 5 / 10)]),
      (CHR ''7'', [(0, 0, 1, 0), (1, 0, 5 / 10, 1)]),
      (CHR ''8'', [(0, 0, 1, 0), (1, 0, 1, 1), (1, 1, 0, 1), (0, 1, 0, 0), (0, 5 / 10, 1, 5 / 10)]),
      (CHR ''9'', [(0, 5 / 10, 1, 5 / 10), (1, 5 / 10, 1, 0), (1, 0, 0, 0), (0, 0, 0, 5 / 10), (1, 0, 1, 1), (1, 1, 0, 1)])]"

definition getCharacterSegments :: "char \<Rightarrow> (real \<times> real \<times> real \<times> real) list" where
  "getCharacterSegments ch = (case map_of segments ch of Some sg \<Rightarrow> sg | None \<Rightarrow> [])"

definition segmentVertices :: "real \<Rightarrow> real \<Rightarrow> Color \<Rightarrow> real \<times> real \<times> real \<times> real \<Rightarrow> Vertex list" where
  "segmentVertices cx py color seg =
     (case seg of (x1, y1, x2, y2) \<Rightarrow>
        [colored (cx + x1 * 12 * (8 / 10)) (py + y1 * 16) color,
         colored (cx + x2 * 12 * (8 / 10)) (py + y2 * 16) color])"

text \<open>
  \<open>drawText\<close> returns the vertices it pushes. \<open>drawChars i\<close> is the loop over the
  characters from index \<open>i\<close> on; the glyph cell is 12 wide and 16 high.
\<close>

fun drawChars :: "nat \<Rightarrow> string \<Rightarrow> real \<Rightarrow> real \<Rightarrow> Color \<Rightarrow> Vertex list" where
  "drawChars i [] px py color = []"
| "drawChars i (ch # rest) px py color =
     concat (map (segmentVertices (px + real i * 12) py color) (getCharacterSegments ch))
       @ drawChars (Suc i) rest px py color"

definition drawText :: "string \<Rightarrow> real \<Rightarrow> real \<Rightarrow> Color \<Rightarrow> Vertex list" where
  "drawText text px py color = drawChars 0 text px py color"

text \<open>
  The template literal \<open>`SCORE: ${this.score}`\<close> prints the score in decimal. (JavaScript
  switches to exponent notation from \<open>1e21\<close> on; the characters it would add are not in
  the table and draw nothing.)
\<close>

fun digits :: "nat \<Rightarrow> string" where
  "digits n = (if n < 10 then [char_of (48 + n)] else digits (n div 10) @ [char_of (48 + n mod 10)])"

definition showScore :: "int \<Rightarrow> string" where
  "showScore n = (if n < 0 then CHR ''-'' # digits (nat (- n)) else digits (nat n))"

subsection \<open>getVertices\<close>

definition starVertices :: "real \<Rightarrow> Star \<Rightarrow> Vertex list" where
  "starVertices time st =
     (let twinkle = 1 / 2 + (1 / 2) * sin (time * twinkleSpeed st + twinkleOffset st);
          br = brightness st * twinkle;
          color = (br, br, br * (12 / 10), 1)
      in [colored (star_x st - 1) (star_y st) color,
          colored (star_x st + 1) (star_y st) color])"

definition rotated :: "Vector2D \<Rightarrow> real \<Rightarrow> Vector2D \<Rightarrow> Vector2D" where
  "rotated pos rot v =
     \<lparr>vx = vx pos + vx v * cos rot - vy v * sin rot,
      vy = vy pos + vx v * sin rot + vy v * cos rot\<rparr>"

text \<open>The closed polygon: for every index \<open>i\<close>, the segment from vertex \<open>i\<close> to vertex \<open>(i + 1) % length\<close>.\<close>

definition closedPolygon :: "Vector2D list \<Rightarrow> Color \<Rightarrow> Vertex list" where
  "closedPolygon vs color =
     concat (map (\<lambda>i. [colored (vx (vs ! i)) (vy (vs ! i)) color,
                        colored (vx (vs ! ((i + 1) mod length vs)))
                                (vy (vs ! ((i + 1) mod length vs))) color])
                 [0..<length vs])"

definition shipColor :: "real \<Rightarrow> Game \<Rightarrow> Color" where
  "shipColor time s =
     (if invincibleTime s > 0 \<and> \<lfloor>time * 10\<rfloor> mod 2 = 0
      then (1 / 2, 1 / 2, 1, 1) else (0, 1, 1 / 2, 1))"

text \<open>The flame; \<open>r\<close> is the value of \<open>Math.random()\<close> for the length jitter.\<close>

definition flameVertices :: "Ship \<Rightarrow> real \<Rightarrow> Vertex list" where
  "flameVertices sh r =
     (let flameSize = SHIP_SIZE * (6 / 10) * (8 / 10 + r * (4 / 10));
          bx = vx (ship_position sh) - cos (ship_rotation sh) * SHIP_SIZE * (4 / 10);
          by = vy (ship_position sh) - sin (ship_rotation sh) * SHIP_SIZE * (4 / 10);
          tx = bx - cos (ship_rotation sh) * flameSize;
          ty = by - sin (ship_rotation sh) * flameSize
      in [colored bx by (1, 1 / 2, 0, 1), colored tx ty (1, 8 / 10, 0, 1)])"

definition shipVertices :: "real \<Rightarrow> Game \<Rightarrow> Vertex list" where
  "shipVertices time s =
     (if gameOver s then []
      else closedPolygon (map (rotated (ship_position (ship s)) (ship_rotation (ship s)))
                        (ship_vertices (ship s)))
                   (shipColor time s)
           @ (if ship_thrust (ship s) then flameVertices (ship s) (rand s (cursor s)) else []))"

definition asteroidVertices :: "Asteroid \<Rightarrow> Vertex list" where
  "asteroidVertices a =
     closedPolygon (map (rotated (ast_position a) (ast_rotation a)) (ast_vertices a))
             (7 / 10, 7 / 10, 7 / 10, 1)"

definition bulletVertices :: "Bullet \<Rightarrow> Vertex list" where
  "bulletVertices b =
     (let color = (1, 1, 0, 1); p = blt_position b
      in [colored (vx p - 3) (vy p) color, colored (vx p + 3) (vy p) color,
          colored (vx p) (vy p - 3) color, colored (vx p) (vy p + 3) color])"

definition statusVertices :: "Game \<Rightarrow> Vertex list" where
  "statusVertices s =
     (if gameOver s
      then drawText ''GAME OVER'' (width s / 2 - 80) (height s / 2) (1, 0, 0, 1)
           @ drawText ''PRESS FIRE TO RESTART'' (width s / 2 - 150) (height s / 2 + 30) (1, 1, 0, 1)
      else [])"

text \<open>
  \<open>getVertices\<close> returns the vertex sequence; the only state it touches is the random
  source, read once when the flame is drawn.
\<close>

definition getVertices :: "real \<Rightarrow> Game \<Rightarrow> Vertex list \<times> Game" where
  "getVertices time s =
     (concat (map (starVertices time) (stars s))
        @ shipVertices time s
        @ concat (map asteroidVertices (asteroids s))
        @ concat (map bulletVertices (bullets s))
        @ drawText (''SCORE: '' @ showScore (score s)) 20 30 (1, 1, 1, 1)
        @ statusVertices s,
      if \<not> gameOver s \<and> ship_thrust (ship s) then s\<lparr>cursor := Suc (cursor s)\<rparr> else s)"

section \<open>Notions used in the statements, and concrete game states\<close>

text \<open>A motionless obstacle without outline, and a motionless projectile.\<close>

definition rock :: "real \<Rightarrow> real \<Rightarrow> real \<Rightarrow> Asteroid" where
  "rock px py sz =
     \<lparr>ast_position = \<lparr>vx = px, vy = py\<rparr>, ast_velocity = \<lparr>vx = 0, vy = 0\<rparr>,
      ast_rotation = 0, rotationSpeed = 0, ast_size = sz, ast_vertices = []\<rparr>"

definition shot :: "real \<Rightarrow> real \<Rightarrow> Bullet" where
  "shot px py =
     \<lparr>blt_position = \<lparr>vx = px, vy = py\<rparr>, blt_velocity = \<lparr>vx = 0, vy = 0\<rparr>, life = 30\<rparr>"

text \<open>A ship on the left edge, drifting left; three small obstacles far away.\<close>

definition driftLeft :: Game where
  "driftLeft =
     \<lparr>width = 800, height = 600,
      ship = (createShip 800 600)\<lparr>ship_position := \<lparr>vx = 0, vy = 300\<rparr>,
                                   ship_velocity := \<lparr>vx = - 1, vy = 0\<rparr>\<rparr>,
      asteroids = replicate 3 (rock 700 500 20), bullets = [], stars = [], score = 0,
      keys = Map.empty, gameOver = False, invincibleTime = 0, rand = (\<lambda>n. 1 / 2),
      cursor = 0\<rparr>"

text \<open>One small obstacle left on the field, far from the ship; no projectile.\<close>

definition sparse :: Game where
  "sparse =
     \<lparr>width = 800, height = 600, ship = createShip 800 600,
      asteroids = [rock 700 500 20], bullets = [], stars = [], score = 0,
      keys = Map.empty, gameOver = False, invincibleTime = 0, rand = (\<lambda>n. 1 / 2),
      cursor = 0\<rparr>"

text \<open>
  A full field: fifteen obstacles of size 60 at \<open>(100, 100)\<close>, one projectile on top of
  them, the ship far away at the centre.
\<close>

definition crowded :: Game where
  "crowded =
     \<lparr>width = 800, height = 600, ship = createShip 800 600,
      asteroids = replicate 15 (rock 100 100 60), bullets = [shot 100 100], stars = [],
      score = 0, keys = Map.empty, gameOver = False, invincibleTime = 0,
      rand = (\<lambda>n. 1 / 2), cursor = 0\<rparr>"

text \<open>
  The velocity \<open>spawnAsteroid\<close> gives an obstacle of size \<open>sz\<close> when the angle is taken
  from draw number \<open>k\<close> of the random source.
\<close>

definition heading :: "Game \<Rightarrow> nat \<Rightarrow> real \<Rightarrow> Vector2D" where
  "heading s k sz =
     \<lparr>vx = cos (rand s k * pi * 2) * (ASTEROID_SPEED * (100 - sz) / 50),
      vy = sin (rand s k * pi * 2) * (ASTEROID_SPEED * (100 - sz) / 50)\<rparr>"

text \<open>Two obstacles under one projectile: a large one at index 0, a small one at index 1.\<close>

definition pair :: Game where
  "pair =
     \<lparr>width = 800, height = 600, ship = createShip 800 600,
      asteroids = [rock 100 100 60, rock 100 100 20], bullets = [shot 100 100], stars = [],
      score = 0, keys = Map.empty, gameOver = False, invincibleTime = 0,
      rand = (\<lambda>n. 1 / 2), cursor = 0\<rparr>"

text \<open>
  The state of \<open>update()\<close> when it reaches the ship-obstacle check: counter decremented,
  everything moved, projectile hits resolved.
\<close>

definition beforeShipCheck :: "Game \<Rightarrow> Game" where
  "beforeShipCheck s =
     bulletPass (moveAsteroids (moveBullets (moveShip (tickInvincible s))))"

text \<open>The ship geometrically overlaps an obstacle at that point of the call.\<close>

definition overlapping :: "Game \<Rightarrow> bool" where
  "overlapping s = shipCollides (ship (beforeShipCheck s)) (asteroids (beforeShipCheck s))"

text \<open>
  Right after a reset, with three motionless obstacles sitting on the ship at the centre
  of the field.
\<close>

definition ambush :: Game where
  "ambush =
     \<lparr>width = 800, height = 600, ship = createShip 800 600,
      asteroids = replicate 3 (rock 400 300 60), bullets = [], stars = [],
      score = 0, keys = Map.empty, gameOver = False, invincibleTime = 120,
      rand = (\<lambda>n. 1 / 2), cursor = 0\<rparr>"


text \<open>The colour of a vertex, and the bounds on its four channels (blue up to \<open>bmax\<close>).\<close>

definition vcolor :: "Vertex \<Rightarrow> Color" where
  "vcolor v = (vert_r v, vert_g v, vert_b v, vert_a v)"

definition channels :: "real \<Rightarrow> Color \<Rightarrow> bool" where
  "channels bmax c =
     (case c of (r, g, b, a) \<Rightarrow>
        0 \<le> r \<and> r \<le> 1 \<and> 0 \<le> g \<and> g \<le> 1 \<and> 0 \<le> b \<and> b \<le> bmax \<and> 0 \<le> a \<and> a \<le> 1)"

text \<open>
  One bright star at the top of its twinkle: \<open>initStars\<close> gives this star for the draws
  \<open>6/7\<close> (brightness), \<open>0\<close> (speed) and \<open>1/4\<close> (offset).
\<close>

definition brightStar :: Game where
  "brightStar =
     \<lparr>width = 800, height = 600, ship = createShip 800 600,
      asteroids = replicate 3 (rock 700 500 20), bullets = [],
      stars = [\<lparr>star_x = 10, star_y = 10, brightness = 9 / 10, twinkleSpeed = 2 / 100,
                twinkleOffset = pi / 2\<rparr>],
      score = 0, keys = Map.empty, gameOver = False, invincibleTime = 0,
      rand = (\<lambda>n. 1 / 2), cursor = 0\<rparr>"

text \<open>
  The obstacle \<open>c\<close> carries an outline that \<open>createAsteroidVertices\<close> made for its size
  from the random sequence \<open>rnd\<close>.
\<close>

abbreviation generated :: "(nat \<Rightarrow> real) \<Rightarrow> Asteroid \<Rightarrow> bool" where
  "generated rnd c \<equiv>
     \<exists>u. rand u = rnd \<and> ast_vertices c = fst (createAsteroidVertices (ast_size c) u)"

text \<open>
  What \<open>wrapPosition\<close> does to one coordinate \<open>c\<close> on an axis of length \<open>len\<close>: below
  \<open>0\<close> it jumps to the far edge, beyond the far edge it jumps to \<open>0\<close>, otherwise it stays.
\<close>

definition wrapCoord :: "real \<Rightarrow> real \<Rightarrow> real" where
  "wrapCoord len c = (if c < 0 then len else if len < c then 0 else c)"

text \<open>
  The ship of \<open>driftLeft\<close> about to cross the left edge, and a projectile about to cross
  the right edge.
\<close>

definition crossing :: Game where
  "crossing =
     driftLeft\<lparr>bullets := [\<lparr>blt_position = \<lparr>vx = 799, vy = 300\<rparr>,
                            blt_velocity = \<lparr>vx = 5, vy = 0\<rparr>, life = 30\<rparr>]\<rparr>"

text \<open>The ship and every projectile are inside the closed field.\<close>

definition wrapped :: "Game \<Rightarrow> bool" where
  "wrapped s =
     (inField (width s) (height s) (ship_position (ship s)) \<and>
      (\<forall>b \<in> set (bullets s). inField (width s) (height s) (blt_position b)))"

text \<open>
  A random sequence whose first draw is \<open>0.2\<close> and whose other draws are \<open>0\<close>: the first
  obstacle of the game gets the size \<open>60 + 0.2 \<sdot> 20 = 64\<close>, and its first outline vertex
  the variance draw \<open>0\<close>.
\<close>

definition lowDraws :: "nat \<Rightarrow> real" where
  "lowDraws n = (if n = 0 then 2 / 10 else 0)"


section \<open>Reachable states\<close>

text \<open>
  The states the object can be in: built by the constructor on a canvas of non-negative
  size, with \<open>Math.random()\<close> in \<open>[0, 1)\<close>, then changed by frames (\<open>update\<close>,
  \<open>getVertices\<close>), key events, and the fire and thrust buttons.
\<close>

inductive reachable :: "Game \<Rightarrow> bool" where
  constructed:
    "0 \<le> w \<Longrightarrow> 0 \<le> h \<Longrightarrow> (\<forall>n. 0 \<le> rnd n \<and> rnd n < 1) \<Longrightarrow> reachable (newGame w h rnd)"
| updated: "reachable s \<Longrightarrow> reachable (update s)"
| rendered: "reachable s \<Longrightarrow> reachable (snd (getVertices time s))"
| keyEvent: "reachable s \<Longrightarrow> reachable (handleKey code pressed s)"
| fireButton: "reachable s \<Longrightarrow> reachable (fireBullet s)"
| thrustButton: "reachable s \<Longrightarrow> reachable (s\<lparr>keys := (keys s)(''up'' \<mapsto> pressed)\<rparr>)"

section \<open>Properties of wrapPosition\<close>

lemma wrapPosition_inField:
  "0 \<le> w \<Longrightarrow> 0 \<le> h \<Longrightarrow> inField w h (wrapPosition w h p)"
  by (simp add: wrapPosition_def inField_def Let_def)

lemma wrapPosition_fixed:
  "inField w h p \<Longrightarrow> wrapPosition w h p = p"
  by (simp add: wrapPosition_def inField_def Let_def)

text \<open>
  C10. For field dimensions \<open>w, h > 0\<close>, one call of \<open>wrapPosition\<close> leaves the
  coordinates in the closed box \<open>0 \<le> x \<le> w\<close>, \<open>0 \<le> y \<le> h\<close>; the boundary values
  \<open>x = w\<close> and \<open>y = h\<close> do occur as results; and a second call changes nothing.
\<close>

theorem wrapPosition_closed_box_idempotent:
  "0 < w \<Longrightarrow> 0 < h \<Longrightarrow>
     0 \<le> vx (wrapPosition w h p) \<and> vx (wrapPosition w h p) \<le> w \<and>
     0 \<le> vy (wrapPosition w h p) \<and> vy (wrapPosition w h p) \<le> h \<and>
     wrapPosition w h (wrapPosition w h p) = wrapPosition w h p \<and>
     (\<exists>q. vx (wrapPosition w h q) = w \<and> vy (wrapPosition w h q) = h)"
proof -
  assume w: "0 < w" and h: "0 < h"
  have box: "inField w h (wrapPosition w h p)"
    using w h by (simp add: wrapPosition_inField)
  have idem: "wrapPosition w h (wrapPosition w h p) = wrapPosition w h p"
    using box by (rule wrapPosition_fixed)
  have "vx (wrapPosition w h \<lparr>vx = -1, vy = -1\<rparr>) = w
      \<and> vy (wrapPosition w h \<lparr>vx = -1, vy = -1\<rparr>) = h"
    using w h by (simp add: wrapPosition_def Let_def)
  then have bd: "\<exists>q. vx (wrapPosition w h q) = w \<and> vy (wrapPosition w h q) = h"
    by blast
  from box idem bd show ?thesis
    by (simp add: inField_def)
qed

theorem wrapPosition_closed_box_idempotent_witness:
  "(0::real) < 800 \<and> (0::real) < 600 \<and>
   vx (wrapPosition 800 600 \<lparr>vx = -3, vy = 700\<rparr>) = 800 \<and>
   vy (wrapPosition 800 600 \<lparr>vx = -3, vy = 700\<rparr>) = 0 \<and>
   wrapPosition 800 600 (wrapPosition 800 600 \<lparr>vx = -3, vy = 700\<rparr>)
     = wrapPosition 800 600 \<lparr>vx = -3, vy = 700\<rparr>"
  using wrapPosition_closed_box_idempotent [of 800 600 "\<lparr>vx = -3, vy = 700\<rparr>"]
  by (simp add: wrapPosition_def Let_def)

section \<open>Frame lemmas: what each step leaves alone\<close>

lemma spawnAsteroid_frame:
  "ship (spawnAsteroid sz pos s) = ship s"
  "bullets (spawnAsteroid sz pos s) = bullets s"
  "width (spawnAsteroid sz pos s) = width s"
  "height (spawnAsteroid sz pos s) = height s"
  "score (spawnAsteroid sz pos s) = score s"
  "keys (spawnAsteroid sz pos s) = keys s"
  "gameOver (spawnAsteroid sz pos s) = gameOver s"
  "invincibleTime (spawnAsteroid sz pos s) = invincibleTime s"
  "rand (spawnAsteroid sz pos s) = rand s"
  "stars (spawnAsteroid sz pos s) = stars s"
  by (simp_all add: spawnAsteroid_def Let_def createAsteroidVertices_def edgePosition_def
        split: prod.splits option.splits)

lemma spawnAsteroid_asteroids:
  "length (asteroids s) < MAX_ASTEROIDS \<Longrightarrow>
     \<exists>a. asteroids (spawnAsteroid sz pos s) = asteroids s @ [a] \<and> ast_size a = sz
        \<and> (\<forall>p. pos = Some p \<longrightarrow> ast_position a = p)"
  by (simp add: spawnAsteroid_def Let_def createAsteroidVertices_def edgePosition_def
        split: prod.splits option.splits)

lemma spawnAsteroid_length:
  "length (asteroids (spawnAsteroid sz pos s)) =
     (if length (asteroids s) < MAX_ASTEROIDS then Suc (length (asteroids s))
      else length (asteroids s))"
  by (simp add: spawnAsteroid_def Let_def createAsteroidVertices_def edgePosition_def
        split: prod.splits option.splits)

lemma spawnAsteroid_bound:
  "length (asteroids s) \<le> MAX_ASTEROIDS \<Longrightarrow>
     length (asteroids (spawnAsteroid sz pos s)) \<le> MAX_ASTEROIDS"
  by (simp add: spawnAsteroid_length)

lemma onHit_frame:
  "ship (onHit i j s) = ship s"
  "width (onHit i j s) = width s"
  "height (onHit i j s) = height s"
  "keys (onHit i j s) = keys s"
  "gameOver (onHit i j s) = gameOver s"
  "invincibleTime (onHit i j s) = invincibleTime s"
  "rand (onHit i j s) = rand s"
  "stars (onHit i j s) = stars s"
  "bullets (onHit i j s) = take i (bullets s) @ drop (Suc i) (bullets s)"
  by (simp_all add: onHit_def Let_def spawnAsteroid_frame)

lemma onHit_bound:
  assumes "length (asteroids s) \<le> MAX_ASTEROIDS"
  shows "length (asteroids (onHit i j s)) \<le> MAX_ASTEROIDS"
proof -
  let ?s1 = "s\<lparr>bullets := take i (bullets s) @ drop (Suc i) (bullets s),
                 asteroids := take j (asteroids s) @ drop (Suc j) (asteroids s),
                 score := score s + \<lfloor>100 / ast_size (asteroids s ! j) * 10\<rfloor>\<rparr>"
  have "length (asteroids ?s1) \<le> MAX_ASTEROIDS"
    using assms by simp
  then show ?thesis
    by (simp add: onHit_def Let_def spawnAsteroid_bound del: length_append length_take length_drop)
qed

lemma bulletLoop_frame:
  "ship (bulletLoop n s) = ship s \<and> width (bulletLoop n s) = width s
   \<and> height (bulletLoop n s) = height s \<and> keys (bulletLoop n s) = keys s
   \<and> gameOver (bulletLoop n s) = gameOver s
   \<and> invincibleTime (bulletLoop n s) = invincibleTime s
   \<and> rand (bulletLoop n s) = rand s \<and> stars (bulletLoop n s) = stars s"
  by (induction n arbitrary: s) (simp_all add: onHit_frame split: option.splits)

lemma set_remove_nth: "set (take i xs @ drop (Suc i) xs) \<subseteq> set xs"
  using set_take_subset set_drop_subset by fastforce

lemma bulletLoop_bullets: "set (bullets (bulletLoop n s)) \<subseteq> set (bullets s)"
proof (induction n arbitrary: s)
  case 0
  show ?case by simp
next
  case (Suc n)
  show ?case
  proof (cases "findHit (bullets s ! n) (asteroids s) (length (asteroids s))")
    case None
    then show ?thesis using Suc.IH [of s] by simp
  next
    case (Some j)
    have "set (bullets (bulletLoop n (onHit n j s))) \<subseteq> set (bullets (onHit n j s))"
      by (rule Suc.IH)
    also have "\<dots> \<subseteq> set (bullets s)"
      by (simp only: onHit_frame set_remove_nth)
    finally show ?thesis using Some by simp
  qed
qed

lemma bulletLoop_bound:
  "length (asteroids s) \<le> MAX_ASTEROIDS \<Longrightarrow>
     length (asteroids (bulletLoop n s)) \<le> MAX_ASTEROIDS"
  by (induction n arbitrary: s) (simp_all add: onHit_bound split: option.splits)

lemma maintain_frame:
  "ship (maintain s) = ship s"
  "bullets (maintain s) = bullets s"
  "width (maintain s) = width s"
  "height (maintain s) = height s"
  "keys (maintain s) = keys s"
  "gameOver (maintain s) = gameOver s"
  "invincibleTime (maintain s) = invincibleTime s"
  "score (maintain s) = score s"
  "stars (maintain s) = stars s"
  "rand (maintain s) = rand s"
  by (simp_all add: maintain_def spawnAsteroid_frame)

lemma shipPass_frame:
  "ship (shipPass s) = ship s"
  "bullets (shipPass s) = bullets s"
  "asteroids (shipPass s) = asteroids s"
  "width (shipPass s) = width s"
  "height (shipPass s) = height s"
  "keys (shipPass s) = keys s"
  "invincibleTime (shipPass s) = invincibleTime s"
  "score (shipPass s) = score s"
  "cursor (shipPass s) = cursor s"
  "rand (shipPass s) = rand s"
  "stars (shipPass s) = stars s"
  by (simp_all add: shipPass_def)

lemma bulletPass_frame:
  "ship (bulletPass s) = ship s"
  "width (bulletPass s) = width s"
  "height (bulletPass s) = height s"
  "keys (bulletPass s) = keys s"
  "gameOver (bulletPass s) = gameOver s"
  "invincibleTime (bulletPass s) = invincibleTime s"
  "stars (bulletPass s) = stars s"
  "rand (bulletPass s) = rand s"
  by (simp_all add: bulletPass_def bulletLoop_frame)

lemma moveShip_frame:
  "asteroids (moveShip s) = asteroids s"
  "bullets (moveShip s) = bullets s"
  "width (moveShip s) = width s"
  "height (moveShip s) = height s"
  "keys (moveShip s) = keys s"
  "gameOver (moveShip s) = gameOver s"
  "invincibleTime (moveShip s) = invincibleTime s"
  "stars (moveShip s) = stars s"
  "rand (moveShip s) = rand s"
  "cursor (moveShip s) = cursor s"
  "score (moveShip s) = score s"
  unfolding moveShip_def Let_def by simp_all

lemma getVertices_state:
  "snd (getVertices time s) = s \<or> snd (getVertices time s) = s\<lparr>cursor := Suc (cursor s)\<rparr>"
  unfolding getVertices_def snd_conv by simp

lemma update_ship:
  "\<not> gameOver s \<Longrightarrow> ship (update s) = ship (moveShip (tickInvincible s))"
  by (simp add: update_def maintain_frame shipPass_frame bulletPass_frame
        moveAsteroids_def moveBullets_def)

lemma update_size:
  "width (update s) = width s" "height (update s) = height s"
  by (simp_all add: update_def maintain_frame shipPass_frame bulletPass_frame
        moveAsteroids_def moveBullets_def moveShip_def tickInvincible_def Let_def)

lemma update_bullets:
  "\<not> gameOver s \<Longrightarrow>
     set (bullets (update s)) \<subseteq> moveBullet (width s) (height s) ` set (bullets s)"
proof -
  assume play: "\<not> gameOver s"
  let ?t = "moveAsteroids (moveBullets (moveShip (tickInvincible s)))"
  have "set (bullets (update s)) = set (bullets (bulletPass ?t))"
    using play by (simp add: update_def maintain_frame shipPass_frame)
  also have "\<dots> \<subseteq> set (bullets ?t)"
    unfolding bulletPass_def by (rule bulletLoop_bullets)
  also have "\<dots> \<subseteq> moveBullet (width s) (height s) ` set (bullets s)"
    by (auto simp: moveAsteroids_def moveBullets_def moveShip_def tickInvincible_def Let_def)
  finally show ?thesis .
qed

lemma initAsteroids_frame:
  "stars (initAsteroids n s) = stars s" "rand (initAsteroids n s) = rand s"
  "width (initAsteroids n s) = width s" "height (initAsteroids n s) = height s"
  "gameOver (initAsteroids n s) = gameOver s" "ship (initAsteroids n s) = ship s"
  "bullets (initAsteroids n s) = bullets s"
  by (induction n arbitrary: s) (simp_all add: spawnAsteroid_frame)

lemma initStars_frame:
  "width (initStars n s) = width s" "height (initStars n s) = height s"
  "gameOver (initStars n s) = gameOver s" "asteroids (initStars n s) = asteroids s"
  by (induction n arbitrary: s) simp_all

lemma newGame_frame:
  "width (newGame w h rnd) = w" "height (newGame w h rnd) = h"
  "\<not> gameOver (newGame w h rnd)"
  by (simp_all add: newGame_def initStars_frame initAsteroids_frame)

lemma fireBullet_frame:
  "width (fireBullet s) = width s" "height (fireBullet s) = height s"
  "\<not> gameOver (fireBullet s)"
  by (simp_all add: fireBullet_def restart_def initAsteroids_frame Let_def)

lemma handleKey_frame:
  "width (handleKey code pressed s) = width s" "height (handleKey code pressed s) = height s"
  by (simp_all add: handleKey_def fireBullet_frame Let_def)

lemma handleKey_gameOver:
  "gameOver (handleKey code pressed s) \<Longrightarrow>
     gameOver s \<and> ship (handleKey code pressed s) = ship s
       \<and> bullets (handleKey code pressed s) = bullets s"
  by (auto simp: handleKey_def fireBullet_frame Let_def split: if_splits)

section \<open>Position wrapping after update\<close>

lemma update_wrapped:
  assumes "\<not> gameOver s" and "0 \<le> width s" and "0 \<le> height s"
  shows "wrapped (update s)"
proof -
  have "ship_position (ship (update s)) =
          wrapPosition (width s) (height s) (ship_position (ship (update s)))"
    using assms(1)
    by (simp add: update_ship moveShip_def tickInvincible_def Let_def
          wrapPosition_fixed wrapPosition_inField assms(2,3))
  then have sh: "inField (width s) (height s) (ship_position (ship (update s)))"
    using wrapPosition_inField [OF assms(2,3)] by metis
  have bl: "inField (width s) (height s) (blt_position b)"
    if "b \<in> set (bullets (update s))" for b
  proof -
    from that update_bullets [OF assms(1)]
    obtain b0 where "b = moveBullet (width s) (height s) b0" by blast
    then show ?thesis
      by (simp add: moveBullet_def wrapPosition_inField assms(2,3))
  qed
  from sh bl show ?thesis
    by (simp add: wrapped_def update_size)
qed

text \<open>
  The field never has a negative size, and a state in \<open>GameOver\<close> is the result of the
  \<open>update()\<close> call that ended the game, untouched since.
\<close>

lemma reachable_wrapped:
  "reachable s \<Longrightarrow> 0 \<le> width s \<and> 0 \<le> height s \<and> (gameOver s \<longrightarrow> wrapped s)"
proof (induction rule: reachable.induct)
  case (constructed w h rnd)
  then show ?case by (simp add: newGame_frame)
next
  case (updated s)
  show ?case
  proof (cases "gameOver s")
    case True
    with updated.IH show ?thesis by (simp add: update_def)
  next
    case False
    with updated.IH have "wrapped (update s)"
      by (simp add: update_wrapped)
    with updated.IH show ?thesis by (simp add: update_size)
  qed
next
  case (rendered s time)
  with getVertices_state [of time s] show ?case
    by (auto simp: wrapped_def)
next
  case (keyEvent s code pressed)
  show ?case
  proof (cases "gameOver (handleKey code pressed s)")
    case True
    from handleKey_gameOver [OF True] keyEvent.IH show ?thesis
      by (simp add: handleKey_frame wrapped_def)
  next
    case False
    with keyEvent.IH show ?thesis by (simp add: handleKey_frame)
  qed
next
  case (fireButton s)
  then show ?case by (simp add: fireBullet_frame)
next
  case (thrustButton s pressed)
  then show ?case by (simp add: wrapped_def)
qed

lemma wrapPosition_coords:
  "vx (wrapPosition w h p) = wrapCoord w (vx p)"
  "vy (wrapPosition w h p) = wrapCoord h (vy p)"
  by (simp_all add: wrapPosition_def wrapCoord_def Let_def)

lemma moveShip_ship:
  "ship_velocity (ship (moveShip s)) =
     \<lparr>vx = (vx (ship_velocity (ship s))
              + (if truthy (keys s ''up'')
                 then cos (ship_rotation (ship (moveShip s))) * SHIP_THRUST else 0)) * SHIP_FRICTION,
      vy = (vy (ship_velocity (ship s))
              + (if truthy (keys s ''up'')
                 then sin (ship_rotation (ship (moveShip s))) * SHIP_THRUST else 0)) * SHIP_FRICTION\<rparr>"
  "ship_position (ship (moveShip s)) =
     wrapPosition (width s) (height s)
       \<lparr>vx = vx (ship_position (ship s)) + vx (ship_velocity (ship (moveShip s))),
        vy = vy (ship_position (ship s)) + vy (ship_velocity (ship (moveShip s)))\<rparr>"
  by (simp_all add: moveShip_def Let_def)

lemma update_ship_moved:
  assumes "\<not> gameOver s"
  shows "ship_velocity (ship (update s)) =
     \<lparr>vx = (vx (ship_velocity (ship s))
              + (if truthy (keys s ''up'')
                 then cos (ship_rotation (ship (update s))) * SHIP_THRUST else 0)) * SHIP_FRICTION,
      vy = (vy (ship_velocity (ship s))
              + (if truthy (keys s ''up'')
                 then sin (ship_rotation (ship (update s))) * SHIP_THRUST else 0)) * SHIP_FRICTION\<rparr>"
    and "ship_position (ship (update s)) =
     wrapPosition (width s) (height s)
       \<lparr>vx = vx (ship_position (ship s)) + vx (ship_velocity (ship (update s))),
        vy = vy (ship_position (ship s)) + vy (ship_velocity (ship (update s)))\<rparr>"
proof -
  let ?t = "tickInvincible s"
  have t: "ship ?t = ship s" "keys ?t = keys s" "width ?t = width s" "height ?t = height s"
    by (simp_all add: tickInvincible_def)
  have u: "ship (update s) = ship (moveShip ?t)"
    using assms by (rule update_ship)
  show "ship_velocity (ship (update s)) =
     \<lparr>vx = (vx (ship_velocity (ship s))
              + (if truthy (keys s ''up'')
                 then cos (ship_rotation (ship (update s))) * SHIP_THRUST else 0)) * SHIP_FRICTION,
      vy = (vy (ship_velocity (ship s))
              + (if truthy (keys s ''up'')
                 then sin (ship_rotation (ship (update s))) * SHIP_THRUST else 0)) * SHIP_FRICTION\<rparr>"
    unfolding u using moveShip_ship(1) [of ?t] by (simp only: t)
  show "ship_position (ship (update s)) =
     wrapPosition (width s) (height s)
       \<lparr>vx = vx (ship_position (ship s)) + vx (ship_velocity (ship (update s))),
        vy = vy (ship_position (ship s)) + vy (ship_velocity (ship (update s)))\<rparr>"
    unfolding u using moveShip_ship(2) [of ?t] by (simp only: t)
qed

lemma crossing_bullets:
  "bullets (update crossing) =
     [\<lparr>blt_position = \<lparr>vx = 0, vy = 300\<rparr>, blt_velocity = \<lparr>vx = 5, vy = 0\<rparr>, life = 29\<rparr>]"
proof -
  let ?t = "moveAsteroids (moveBullets (moveShip (tickInvincible crossing)))"
  have b: "bullets ?t =
     [\<lparr>blt_position = \<lparr>vx = 0, vy = 300\<rparr>, blt_velocity = \<lparr>vx = 5, vy = 0\<rparr>, life = 29\<rparr>]"
    by (simp add: moveAsteroids_def moveBullets_def moveShip_frame tickInvincible_def
          crossing_def driftLeft_def moveBullet_def wrapPosition_def Let_def)
  have a: "asteroids ?t = replicate 3 (rock 700 500 20)"
    by (simp add: moveAsteroids_def moveBullets_def moveShip_frame tickInvincible_def
          crossing_def driftLeft_def moveAsteroid_def rock_def wrapPosition_def Let_def)
  have "findHit (hd (bullets ?t)) (asteroids ?t) (Suc (Suc (Suc 0))) = None"
    unfolding a b by (simp add: bulletHits_def rock_def Let_def numeral_3_eq_3)
  then have "bulletLoop (Suc 0) ?t = ?t"
    using a b by (simp add: numeral_3_eq_3)
  then have "bullets (bulletPass ?t) = bullets ?t"
    by (simp add: bulletPass_def b)
  moreover have "\<not> gameOver crossing"
    by (simp add: crossing_def driftLeft_def)
  ultimately show ?thesis
    by (simp add: update_def maintain_frame shipPass_frame b)
qed

text \<open>
  C1 (as amended). In every reachable state \<open>s\<close>, after \<open>update()\<close> the ship and every
  remaining projectile lie in the closed box \<open>0 \<le> x \<le> width\<close>, \<open>0 \<le> y \<le> height\<close>.
  And in every state \<open>t\<close> in \<open>Playing\<close> the position is wrapped, not clamped or
  bounced: each coordinate of the ship and of every remaining projectile is the old
  coordinate plus the velocity, put to the far edge if it fell below \<open>0\<close>, put to \<open>0\<close> if
  it went beyond the far edge, and left as it is otherwise; the velocity is the one the
  integration step gives, whatever the position (a projectile keeps its velocity).
\<close>

theorem update_positions_in_closed_field:
  assumes "reachable s" and "\<not> gameOver t"
  shows "0 \<le> vx (ship_position (ship (update s))) \<and>
         vx (ship_position (ship (update s))) \<le> width s \<and>
         0 \<le> vy (ship_position (ship (update s))) \<and>
         vy (ship_position (ship (update s))) \<le> height s \<and>
         (\<forall>b \<in> set (bullets (update s)).
            0 \<le> vx (blt_position b) \<and> vx (blt_position b) \<le> width s \<and>
            0 \<le> vy (blt_position b) \<and> vy (blt_position b) \<le> height s) \<and>
         vx (ship_position (ship (update t))) =
           wrapCoord (width t)
             (vx (ship_position (ship t)) + vx (ship_velocity (ship (update t)))) \<and>
         vy (ship_position (ship (update t))) =
           wrapCoord (height t)
             (vy (ship_position (ship t)) + vy (ship_velocity (ship (update t)))) \<and>
         ship_velocity (ship (update t)) =
           \<lparr>vx = (vx (ship_velocity (ship t))
                    + (if truthy (keys t ''up'')
                       then cos (ship_rotation (ship (update t))) * SHIP_THRUST else 0))
                   * SHIP_FRICTION,
            vy = (vy (ship_velocity (ship t))
                    + (if truthy (keys t ''up'')
                       then sin (ship_rotation (ship (update t))) * SHIP_THRUST else 0))
                   * SHIP_FRICTION\<rparr> \<and>
         (\<forall>b \<in> set (bullets (update t)). \<exists>b0 \<in> set (bullets t).
            blt_velocity b = blt_velocity b0 \<and>
            vx (blt_position b) =
              wrapCoord (width t) (vx (blt_position b0) + vx (blt_velocity b0)) \<and>
            vy (blt_position b) =
              wrapCoord (height t) (vy (blt_position b0) + vy (blt_velocity b0)))"
proof -
  have "wrapped (update s)"
  proof (cases "gameOver s")
    case True
    with reachable_wrapped [OF assms(1)] show ?thesis by (simp add: update_def)
  next
    case False
    with reachable_wrapped [OF assms(1)] show ?thesis by (simp add: update_wrapped)
  qed
  then have box: "0 \<le> vx (ship_position (ship (update s))) \<and>
         vx (ship_position (ship (update s))) \<le> width s \<and>
         0 \<le> vy (ship_position (ship (update s))) \<and>
         vy (ship_position (ship (update s))) \<le> height s \<and>
         (\<forall>b \<in> set (bullets (update s)).
            0 \<le> vx (blt_position b) \<and> vx (blt_position b) \<le> width s \<and>
            0 \<le> vy (blt_position b) \<and> vy (blt_position b) \<le> height s)"
    by (simp add: wrapped_def inField_def update_size)
  note mv = update_ship_moved [OF assms(2)]
  have px: "vx (ship_position (ship (update t))) =
           wrapCoord (width t)
             (vx (ship_position (ship t)) + vx (ship_velocity (ship (update t))))"
    by (subst mv(2)) (simp add: wrapPosition_coords)
  have py: "vy (ship_position (ship (update t))) =
           wrapCoord (height t)
             (vy (ship_position (ship t)) + vy (ship_velocity (ship (update t))))"
    by (subst mv(2)) (simp add: wrapPosition_coords)
  have bl: "\<exists>b0 \<in> set (bullets t).
            blt_velocity b = blt_velocity b0 \<and>
            vx (blt_position b) =
              wrapCoord (width t) (vx (blt_position b0) + vx (blt_velocity b0)) \<and>
            vy (blt_position b) =
              wrapCoord (height t) (vy (blt_position b0) + vy (blt_velocity b0))"
    if "b \<in> set (bullets (update t))" for b
  proof -
    from that update_bullets [OF assms(2)]
    obtain b0 where "b0 \<in> set (bullets t)" "b = moveBullet (width t) (height t) b0"
      by blast
    then show ?thesis
      by (auto simp: moveBullet_def wrapPosition_coords)
  qed
  from box px py mv(1) bl show ?thesis by blast
qed

theorem update_positions_in_closed_field_witness:
  "reachable (newGame 800 600 (\<lambda>n. 1 / 2)) \<and> \<not> gameOver crossing \<and>
   vx (ship_position (ship (update (newGame 800 600 (\<lambda>n. 1 / 2))))) \<le> 800 \<and>
   vx (ship_position (ship crossing)) + vx (ship_velocity (ship (update crossing))) < 0 \<and>
   vx (ship_position (ship (update crossing))) = width crossing \<and>
   hd (bullets (update crossing)) \<in> set (bullets (update crossing)) \<and>
   hd (bullets crossing) \<in> set (bullets crossing) \<and>
   width crossing
     < vx (blt_position (hd (bullets crossing))) + vx (blt_velocity (hd (bullets crossing))) \<and>
   vx (blt_position (hd (bullets (update crossing)))) = 0"
proof -
  have r: "reachable (newGame 800 600 (\<lambda>n. 1 / 2))"
    by (rule reachable.constructed) simp_all
  have p: "\<not> gameOver crossing"
    by (simp add: crossing_def driftLeft_def)
  note inst = update_positions_in_closed_field [OF r p]
  have box: "vx (ship_position (ship (update (newGame 800 600 (\<lambda>n. 1 / 2))))) \<le> 800"
    using inst by (simp add: newGame_frame)
  have c: "width crossing = 800" "vx (ship_position (ship crossing)) = 0"
    "vx (ship_velocity (ship crossing)) = - 1" "\<not> truthy (keys crossing ''up'')"
    "bullets crossing = [\<lparr>blt_position = \<lparr>vx = 799, vy = 300\<rparr>,
                            blt_velocity = \<lparr>vx = 5, vy = 0\<rparr>, life = 30\<rparr>]"
    by (simp_all add: crossing_def driftLeft_def truthy_def)
  from inst have "ship_velocity (ship (update crossing)) =
           \<lparr>vx = (vx (ship_velocity (ship crossing))
                    + (if truthy (keys crossing ''up'')
                       then cos (ship_rotation (ship (update crossing))) * SHIP_THRUST else 0))
                   * SHIP_FRICTION,
            vy = (vy (ship_velocity (ship crossing))
                    + (if truthy (keys crossing ''up'')
                       then sin (ship_rotation (ship (update crossing))) * SHIP_THRUST else 0))
                   * SHIP_FRICTION\<rparr>"
    by blast
  then have v: "vx (ship_velocity (ship (update crossing))) = - (99 / 100)"
    by (simp add: c SHIP_FRICTION_def)
  then have neg: "vx (ship_position (ship crossing)) + vx (ship_velocity (ship (update crossing))) < 0"
    by (simp add: c)
  from inst have "vx (ship_position (ship (update crossing))) =
           wrapCoord (width crossing)
             (vx (ship_position (ship crossing)) + vx (ship_velocity (ship (update crossing))))"
    by blast
  with neg have sx: "vx (ship_position (ship (update crossing))) = width crossing"
    by (simp add: wrapCoord_def)
  have m: "hd (bullets (update crossing)) \<in> set (bullets (update crossing))"
    by (simp add: crossing_bullets)
  with inst obtain b0 where b0: "b0 \<in> set (bullets crossing)"
    "vx (blt_position (hd (bullets (update crossing)))) =
              wrapCoord (width crossing) (vx (blt_position b0) + vx (blt_velocity b0))"
    by blast
  from b0(1) have "b0 = hd (bullets crossing)"
    by (simp add: c)
  with b0(2) have bx: "vx (blt_position (hd (bullets (update crossing)))) = 0"
    by (simp add: c wrapCoord_def)
  have m0: "hd (bullets crossing) \<in> set (bullets crossing)"
    "width crossing
       < vx (blt_position (hd (bullets crossing))) + vx (blt_velocity (hd (bullets crossing)))"
    by (simp_all add: c)
  from r p box neg sx m m0 bx show ?thesis by blast
qed

text \<open>
  C1 as stated fails: the ship of \<open>driftLeft\<close> crosses the left edge and is put at
  \<open>x = width\<close>, outside the half-open box.
\<close>

theorem update_position_reaches_width:
  "\<not> (0 \<le> vx (ship_position (ship (update driftLeft))) \<and>
      vx (ship_position (ship (update driftLeft))) < width (update driftLeft) \<and>
      0 \<le> vy (ship_position (ship (update driftLeft))) \<and>
      vy (ship_position (ship (update driftLeft))) < height (update driftLeft))"
  by (simp add: update_ship update_size driftLeft_def moveShip_def tickInvincible_def
        Let_def createShip_def truthy_def SHIP_FRICTION_def wrapPosition_def)

section \<open>Population bound\<close>

lemma initAsteroids_bound:
  "length (asteroids s) \<le> MAX_ASTEROIDS \<Longrightarrow>
     length (asteroids (initAsteroids n s)) \<le> MAX_ASTEROIDS"
  by (induction n arbitrary: s) (simp_all add: spawnAsteroid_bound)

lemma initStars_asteroids: "asteroids (initStars n s) = asteroids s"
  by (induction n arbitrary: s) simp_all

lemma newGame_bound: "length (asteroids (newGame w h rnd)) \<le> MAX_ASTEROIDS"
  by (simp add: newGame_def initStars_asteroids initAsteroids_bound)

lemma restart_bound: "length (asteroids (restart s)) \<le> MAX_ASTEROIDS"
  by (simp add: restart_def initAsteroids_bound)

lemma fireBullet_bound:
  "length (asteroids s) \<le> MAX_ASTEROIDS \<Longrightarrow>
     length (asteroids (fireBullet s)) \<le> MAX_ASTEROIDS"
  by (simp add: fireBullet_def restart_bound Let_def)

lemma handleKey_bound:
  "length (asteroids s) \<le> MAX_ASTEROIDS \<Longrightarrow>
     length (asteroids (handleKey code pressed s)) \<le> MAX_ASTEROIDS"
  by (simp add: handleKey_def fireBullet_bound Let_def)

lemma maintain_bound:
  "length (asteroids s) \<le> MAX_ASTEROIDS \<Longrightarrow>
     length (asteroids (maintain s)) \<le> MAX_ASTEROIDS"
  by (simp add: maintain_def spawnAsteroid_bound)

lemma update_bound:
  assumes "length (asteroids s) \<le> MAX_ASTEROIDS"
  shows "length (asteroids (update s)) \<le> MAX_ASTEROIDS"
proof (cases "gameOver s")
  case True
  then show ?thesis using assms by (simp add: update_def)
next
  case False
  let ?t = "moveAsteroids (moveBullets (moveShip (tickInvincible s)))"
  have "length (asteroids ?t) \<le> MAX_ASTEROIDS"
    using assms
    by (simp add: moveAsteroids_def moveBullets_def moveShip_def tickInvincible_def Let_def)
  then have "length (asteroids (bulletPass ?t)) \<le> MAX_ASTEROIDS"
    unfolding bulletPass_def by (rule bulletLoop_bound)
  then have "length (asteroids (maintain (shipPass (bulletPass ?t)))) \<le> MAX_ASTEROIDS"
    by (intro maintain_bound) (simp add: shipPass_frame)
  then show ?thesis using False by (simp add: update_def)
qed

lemma reachable_bound: "reachable s \<Longrightarrow> length (asteroids s) \<le> MAX_ASTEROIDS"
proof (induction rule: reachable.induct)
  case (constructed w h rnd)
  show ?case by (rule newGame_bound)
next
  case (updated s)
  from updated.IH show ?case by (rule update_bound)
next
  case (rendered s time)
  with getVertices_state [of time s] show ?case by auto
next
  case (keyEvent s code pressed)
  from keyEvent.IH show ?case by (rule handleKey_bound)
next
  case (fireButton s)
  from fireButton.IH show ?case by (rule fireBullet_bound)
next
  case (thrustButton s pressed)
  then show ?case by simp
qed

text \<open>
  C4. In every reachable state the obstacle count is at most 15 after \<open>update()\<close>,
  whatever the number of splits in that call; and \<open>spawnAsteroid\<close>, called for an edge,
  split or maintenance spawn (any size, with or without a position) on a state \<open>t\<close>
  holding 15 obstacles, returns \<open>t\<close> unchanged.
\<close>

theorem obstacle_count_never_exceeds_max:
  "reachable s \<Longrightarrow>
     length (asteroids (update s)) \<le> 15 \<and>
     (length (asteroids t) = 15 \<longrightarrow> spawnAsteroid sz pos t = t)"
  using update_bound [OF reachable_bound, of s]
  by (simp add: MAX_ASTEROIDS_def spawnAsteroid_def)

theorem obstacle_count_never_exceeds_max_witness:
  "reachable (newGame 800 600 (\<lambda>n. 1 / 2)) \<and>
   length (asteroids (update (newGame 800 600 (\<lambda>n. 1 / 2)))) \<le> 15 \<and>
   length (asteroids crowded) = 15 \<and>
   spawnAsteroid 30 None crowded = crowded"
proof -
  have r: "reachable (newGame 800 600 (\<lambda>n. 1 / 2))"
    by (rule reachable.constructed) simp_all
  have c: "length (asteroids crowded) = 15"
    by (simp add: crowded_def)
  from r c obstacle_count_never_exceeds_max [OF r, of crowded 30 None] show ?thesis
    by simp
qed

section \<open>Obstacle split law\<close>

lemma spawnAsteroid_full:
  "length (asteroids s) \<ge> MAX_ASTEROIDS \<Longrightarrow> spawnAsteroid sz pos s = s"
  by (simp add: spawnAsteroid_def)

lemma spawnAsteroid_Some:
  "length (asteroids s) < MAX_ASTEROIDS \<Longrightarrow>
     asteroids (spawnAsteroid sz (Some p) s) = asteroids s @
       [\<lparr>ast_position = p,
         ast_velocity = \<lparr>vx = cos (rand s (cursor s) * pi * 2) * (ASTEROID_SPEED * (100 - sz) / 50),
                         vy = sin (rand s (cursor s) * pi * 2) * (ASTEROID_SPEED * (100 - sz) / 50)\<rparr>,
         ast_rotation = 0,
         rotationSpeed = (rand s (Suc (cursor s)) - 1 / 2) * (4 / 100),
         ast_size = sz,
         ast_vertices = fst (createAsteroidVertices sz (s\<lparr>cursor := cursor s + 2\<rparr>))\<rparr>]"
  by (simp add: spawnAsteroid_def Let_def createAsteroidVertices_def split: prod.splits)

lemma spawnAsteroid_cursor:
  "length (asteroids s) < MAX_ASTEROIDS \<Longrightarrow>
     cursor s < cursor (spawnAsteroid sz (Some p) s)"
  by (simp add: spawnAsteroid_def Let_def createAsteroidVertices_def split: prod.splits)

lemma spawnAsteroid_child:
  assumes "length (asteroids s) < MAX_ASTEROIDS"
  shows "\<exists>c. asteroids (spawnAsteroid sz (Some p) s) = asteroids s @ [c]
           \<and> ast_size c = sz \<and> ast_position c = p
           \<and> ast_velocity c = heading s (cursor s) sz"
  using assms by (simp add: spawnAsteroid_Some heading_def)

text \<open>
  C3 (as amended). When a projectile destroys obstacle \<open>j\<close> (the branch \<open>onHit\<close>), with
  at most 15 obstacles on the field: if its size is at most 25, it is removed and nothing
  is created; if its size \<open>sz\<close> exceeds 25 and at most 14 obstacles were on the field,
  exactly two obstacles of size \<open>sz / 2\<close> are appended at the destroyed obstacle's
  position, their headings taken from two different draws \<open>k1 < k2\<close> of the random
  source; if 15 obstacles were on the field, only one such child is created, the second
  spawn being suppressed at the maximum.
\<close>

theorem onHit_split_law:
  assumes "j < length (asteroids s)" and "length (asteroids s) \<le> 15"
  shows "(ast_size (asteroids s ! j) \<le> 25 \<longrightarrow>
            asteroids (onHit i j s) = take j (asteroids s) @ drop (Suc j) (asteroids s)) \<and>
         (25 < ast_size (asteroids s ! j) \<and> length (asteroids s) \<le> 14 \<longrightarrow>
            (\<exists>c1 c2 k1 k2.
               asteroids (onHit i j s) =
                 take j (asteroids s) @ drop (Suc j) (asteroids s) @ [c1, c2] \<and>
               ast_size c1 = ast_size (asteroids s ! j) / 2 \<and>
               ast_size c2 = ast_size (asteroids s ! j) / 2 \<and>
               ast_position c1 = ast_position (asteroids s ! j) \<and>
               ast_position c2 = ast_position (asteroids s ! j) \<and>
               k1 < k2 \<and>
               ast_velocity c1 = heading s k1 (ast_size c1) \<and>
               ast_velocity c2 = heading s k2 (ast_size c2))) \<and>
         (25 < ast_size (asteroids s ! j) \<and> length (asteroids s) = 15 \<longrightarrow>
            (\<exists>c1.
               asteroids (onHit i j s) =
                 take j (asteroids s) @ drop (Suc j) (asteroids s) @ [c1] \<and>
               ast_size c1 = ast_size (asteroids s ! j) / 2 \<and>
               ast_position c1 = ast_position (asteroids s ! j) \<and>
               ast_velocity c1 = heading s (cursor s) (ast_size c1)))"
proof -
  define a where "a = asteroids s ! j"
  define rest where "rest = take j (asteroids s) @ drop (Suc j) (asteroids s)"
  define s1 where "s1 = s\<lparr>bullets := take i (bullets s) @ drop (Suc i) (bullets s),
                 asteroids := rest,
                 score := score s + \<lfloor>100 / ast_size a * 10\<rfloor>\<rparr>"
  define s2 where "s2 = spawnAsteroid (ast_size a / 2) (Some (ast_position a)) s1"
  have len: "length rest = length (asteroids s) - 1"
    using assms(1) by (simp add: rest_def)
  have s1f: "asteroids s1 = rest" "cursor s1 = cursor s" "rand s1 = rand s"
    by (simp_all add: s1_def)
  have small: "asteroids (onHit i j s) = rest" if "ast_size a \<le> 25"
    using that by (simp add: onHit_def Let_def a_def rest_def)
  have big: "onHit i j s = spawnAsteroid (ast_size a / 2) (Some (ast_position a)) s2"
    if "25 < ast_size a"
    using that by (simp add: onHit_def Let_def a_def rest_def s1_def s2_def)
  have room1: "length (asteroids s1) < MAX_ASTEROIDS"
    using assms len by (simp add: s1f MAX_ASTEROIDS_def)
  from spawnAsteroid_child [OF room1, of "ast_size a / 2" "ast_position a"]
  obtain c1 where c1: "asteroids s2 = rest @ [c1]" "ast_size c1 = ast_size a / 2"
      "ast_position c1 = ast_position a" "ast_velocity c1 = heading s (cursor s) (ast_size c1)"
    by (auto simp: s2_def s1f heading_def)
  have cur: "cursor s < cursor s2"
    using spawnAsteroid_cursor [OF room1, of "ast_size a / 2" "ast_position a"]
    by (simp add: s2_def s1f)
  have rnd: "rand s2 = rand s"
    by (simp add: s2_def spawnAsteroid_frame s1f)
  have two: "\<exists>c1 c2 k1 k2. asteroids (onHit i j s) = rest @ [c1, c2] \<and>
               ast_size c1 = ast_size a / 2 \<and> ast_size c2 = ast_size a / 2 \<and>
               ast_position c1 = ast_position a \<and> ast_position c2 = ast_position a \<and>
               k1 < k2 \<and> ast_velocity c1 = heading s k1 (ast_size c1) \<and>
               ast_velocity c2 = heading s k2 (ast_size c2)"
    if sz: "25 < ast_size a" and few: "length (asteroids s) \<le> 14"
  proof -
    have room2: "length (asteroids s2) < MAX_ASTEROIDS"
      using few len assms(1) by (simp add: c1(1) MAX_ASTEROIDS_def)
    from spawnAsteroid_child [OF room2, of "ast_size a / 2" "ast_position a"]
    obtain c2 where c2: "asteroids (onHit i j s) = rest @ [c1, c2]" "ast_size c2 = ast_size a / 2"
      "ast_position c2 = ast_position a" "ast_velocity c2 = heading s (cursor s2) (ast_size c2)"
      by (auto simp: big [OF sz] c1(1) heading_def rnd)
    from c1 c2 cur show ?thesis by blast
  qed
  have one: "\<exists>c1. asteroids (onHit i j s) = rest @ [c1] \<and>
               ast_size c1 = ast_size a / 2 \<and> ast_position c1 = ast_position a \<and>
               ast_velocity c1 = heading s (cursor s) (ast_size c1)"
    if sz: "25 < ast_size a" and many: "length (asteroids s) = 15"
  proof -
    have full: "length (asteroids s2) \<ge> MAX_ASTEROIDS"
      using many len by (simp add: c1(1) MAX_ASTEROIDS_def)
    have "asteroids (onHit i j s) = rest @ [c1]"
      by (simp add: big [OF sz] spawnAsteroid_full [OF full] c1(1))
    with c1 show ?thesis by blast
  qed
  from small two one show ?thesis
    unfolding a_def rest_def by simp
qed


theorem onHit_split_law_witness:
  "(0::nat) < length (asteroids crowded) \<and> length (asteroids crowded) \<le> 15 \<and>
   25 < ast_size (asteroids crowded ! 0) \<and> length (asteroids crowded) = 15 \<and>
   (\<exists>c1. asteroids (onHit 0 0 crowded) = replicate 14 (rock 100 100 60) @ [c1] \<and>
      ast_size c1 = 30 \<and> ast_position c1 = \<lparr>vx = 100, vy = 100\<rparr>) \<and>
   (1::nat) < length (asteroids pair) \<and> length (asteroids pair) \<le> 14 \<and>
   ast_size (asteroids pair ! 1) \<le> 25 \<and> asteroids (onHit 0 1 pair) = [rock 100 100 60] \<and>
   25 < ast_size (asteroids pair ! 0) \<and>
   (\<exists>c1 c2. asteroids (onHit 0 0 pair) = [rock 100 100 20, c1, c2] \<and>
      ast_size c1 = 30 \<and> ast_size c2 = 30 \<and>
      ast_position c1 = \<lparr>vx = 100, vy = 100\<rparr> \<and> ast_position c2 = \<lparr>vx = 100, vy = 100\<rparr>)"
proof -
  have a: "asteroids crowded = replicate 15 (rock 100 100 60)"
    by (simp add: crowded_def)
  have p: "(0::nat) < length (asteroids crowded)" "length (asteroids crowded) \<le> 15"
    "25 < ast_size (asteroids crowded ! 0)" "length (asteroids crowded) = 15"
    by (simp_all add: a rock_def)
  from onHit_split_law [OF p(1,2), of 0] p(3,4)
  obtain c1 where c1:
    "asteroids (onHit 0 0 crowded)
       = take 0 (asteroids crowded) @ drop (Suc 0) (asteroids crowded) @ [c1]"
    "ast_size c1 = ast_size (asteroids crowded ! 0) / 2"
    "ast_position c1 = ast_position (asteroids crowded ! 0)"
    by blast
  have "asteroids (onHit 0 0 crowded) = replicate 14 (rock 100 100 60) @ [c1]"
    using c1(1) by (simp add: a)
  moreover have "ast_size c1 = 30" "ast_position c1 = \<lparr>vx = 100, vy = 100\<rparr>"
    using c1(2,3) by (simp_all add: a rock_def)
  ultimately have full:
    "\<exists>c1. asteroids (onHit 0 0 crowded) = replicate 14 (rock 100 100 60) @ [c1] \<and>
      ast_size c1 = 30 \<and> ast_position c1 = \<lparr>vx = 100, vy = 100\<rparr>"
    by blast
  have b: "asteroids pair = [rock 100 100 60, rock 100 100 20]"
    by (simp add: pair_def)
  have q: "(1::nat) < length (asteroids pair)" "length (asteroids pair) \<le> 15"
    "ast_size (asteroids pair ! 1) \<le> 25" "(0::nat) < length (asteroids pair)"
    "25 < ast_size (asteroids pair ! 0)" "length (asteroids pair) \<le> 14"
    by (simp_all add: b rock_def)
  have small: "asteroids (onHit 0 1 pair) = [rock 100 100 60]"
    using onHit_split_law [OF q(1,2), of 0] q(3) by (simp add: b)
  from onHit_split_law [OF q(4,2), of 0] q(5,6)
  obtain d1 d2 where d:
    "asteroids (onHit 0 0 pair)
       = take 0 (asteroids pair) @ drop (Suc 0) (asteroids pair) @ [d1, d2]"
    "ast_size d1 = ast_size (asteroids pair ! 0) / 2"
    "ast_size d2 = ast_size (asteroids pair ! 0) / 2"
    "ast_position d1 = ast_position (asteroids pair ! 0)"
    "ast_position d2 = ast_position (asteroids pair ! 0)"
    by blast
  have "asteroids (onHit 0 0 pair) = [rock 100 100 20, d1, d2]"
    using d(1) by (simp add: b)
  moreover have "ast_size d1 = 30" "ast_size d2 = 30"
    "ast_position d1 = \<lparr>vx = 100, vy = 100\<rparr>" "ast_position d2 = \<lparr>vx = 100, vy = 100\<rparr>"
    using d(2-5) by (simp_all add: b rock_def)
  ultimately have two:
    "\<exists>c1 c2. asteroids (onHit 0 0 pair) = [rock 100 100 20, c1, c2] \<and>
      ast_size c1 = 30 \<and> ast_size c2 = 30 \<and>
      ast_position c1 = \<lparr>vx = 100, vy = 100\<rparr> \<and> ast_position c2 = \<lparr>vx = 100, vy = 100\<rparr>"
    by blast
  from p full q(1,6,3,5) small two show ?thesis by blast
qed

text \<open>
  C3 as stated fails on a full field: the hit obstacle of \<open>crowded\<close> has size 60, and
  the count after the hit is 15, not \<open>15 - 1 + 2\<close>: only one child was created.
\<close>

theorem onHit_full_field_one_child:
  "25 < ast_size (asteroids crowded ! 0) \<and>
   length (asteroids (onHit 0 0 crowded)) \<noteq> length (asteroids crowded) - 1 + 2"
  by (simp add: onHit_def Let_def spawnAsteroid_length crowded_def rock_def MAX_ASTEROIDS_def)

section \<open>Projectile against obstacles\<close>

lemma findHit_Some:
  "findHit b as n = Some j \<Longrightarrow>
     j < n \<and> bulletHits b (as ! j) \<and> (\<forall>k<n. bulletHits b (as ! k) \<longrightarrow> k \<le> j)"
proof (induction n)
  case 0
  then show ?case by simp
next
  case (Suc n)
  show ?case
  proof (cases "bulletHits b (as ! n)")
    case True
    with Suc.prems have "j = n" by simp
    with True show ?thesis by auto
  next
    case False
    with Suc.prems have "findHit b as n = Some j" by simp
    from Suc.IH [OF this] False show ?thesis
      by (auto simp: less_Suc_eq)
  qed
qed

lemma findHit_None:
  "findHit b as n = None \<Longrightarrow> \<forall>k<n. \<not> bulletHits b (as ! k)"
  by (induction n) (auto simp: less_Suc_eq split: if_splits)

lemma onHit_asteroids:
  "\<exists>cs. asteroids (onHit i j s) = take j (asteroids s) @ drop (Suc j) (asteroids s) @ cs
        \<and> length cs \<le> 2"
proof -
  have sp: "\<exists>cs. asteroids (spawnAsteroid sz pos t) = asteroids t @ cs \<and> length cs \<le> 1"
    for sz pos t
  proof (cases "length (asteroids t) < MAX_ASTEROIDS")
    case True
    from spawnAsteroid_asteroids [OF this, of sz pos] show ?thesis by auto
  next
    case False
    then show ?thesis by (simp add: spawnAsteroid_def)
  qed
  let ?s1 = "s\<lparr>bullets := take i (bullets s) @ drop (Suc i) (bullets s),
                 asteroids := take j (asteroids s) @ drop (Suc j) (asteroids s),
                 score := score s + \<lfloor>100 / ast_size (asteroids s ! j) * 10\<rfloor>\<rparr>"
  show ?thesis
  proof (cases "ast_size (asteroids s ! j) > 25")
    case False
    then show ?thesis by (simp add: onHit_def Let_def)
  next
    case True
    let ?sz = "ast_size (asteroids s ! j) * (1 / 2)"
    let ?p = "Some (ast_position (asteroids s ! j))"
    from sp [of ?sz ?p ?s1] obtain cs1 where
      c1: "asteroids (spawnAsteroid ?sz ?p ?s1) = asteroids ?s1 @ cs1" "length cs1 \<le> 1"
      by blast
    from sp [of ?sz ?p "spawnAsteroid ?sz ?p ?s1"] obtain cs2 where
      c2: "asteroids (spawnAsteroid ?sz ?p (spawnAsteroid ?sz ?p ?s1))
             = asteroids (spawnAsteroid ?sz ?p ?s1) @ cs2" "length cs2 \<le> 1"
      by blast
    have "asteroids (onHit i j s)
            = take j (asteroids s) @ drop (Suc j) (asteroids s) @ (cs1 @ cs2)"
      using True c1(1) c2(1) by (simp add: onHit_def Let_def)
    moreover have "length (cs1 @ cs2) \<le> 2"
      using c1(2) c2(2) by simp
    ultimately show ?thesis by blast
  qed
qed

lemma pair_hit:
  "findHit (shot 100 100) [rock 100 100 60, rock 100 100 20] (Suc (Suc 0)) = Some (Suc 0)"
  by (simp add: bulletHits_def shot_def rock_def Let_def)

text \<open>
  C6 (as amended). In one turn of the projectile loop, projectile \<open>i\<close> either hits no
  obstacle and the state is unchanged, or it is removed together with exactly one obstacle
  (at most two children appended) and the loop goes on with the next projectile. The
  obstacles are tested in descending index order, the newest-inserted first: the obstacle
  hit is the one of greatest index among those the projectile overlaps.
\<close>

theorem bullet_hits_highest_index:
  "case findHit (bullets s ! i) (asteroids s) (length (asteroids s)) of
     None \<Rightarrow>
       (\<forall>k<length (asteroids s). \<not> bulletHits (bullets s ! i) (asteroids s ! k)) \<and>
       bulletLoop (Suc i) s = bulletLoop i s
   | Some j \<Rightarrow>
       j < length (asteroids s) \<and> bulletHits (bullets s ! i) (asteroids s ! j) \<and>
       (\<forall>k<length (asteroids s). bulletHits (bullets s ! i) (asteroids s ! k) \<longrightarrow> k \<le> j) \<and>
       bullets (onHit i j s) = take i (bullets s) @ drop (Suc i) (bullets s) \<and>
       (\<exists>cs. asteroids (onHit i j s)
               = take j (asteroids s) @ drop (Suc j) (asteroids s) @ cs \<and> length cs \<le> 2) \<and>
       bulletLoop (Suc i) s = bulletLoop i (onHit i j s)"
proof (cases "findHit (bullets s ! i) (asteroids s) (length (asteroids s))")
  case None
  from findHit_None [OF None] None show ?thesis by simp
next
  case (Some j)
  from findHit_Some [OF Some] onHit_asteroids [of i j s] Some show ?thesis
    by (simp add: onHit_frame)
qed

theorem bullet_hits_highest_index_witness:
  "findHit (bullets pair ! 0) (asteroids pair) (length (asteroids pair)) = Some 1 \<and>
   (1::nat) < length (asteroids pair) \<and>
   bulletHits (bullets pair ! 0) (asteroids pair ! 0) \<and> (0::nat) \<le> 1 \<and>
   bullets (onHit 0 1 pair) = [] \<and>
   findHit (bullets (pair\<lparr>bullets := [shot 500 500]\<rparr>) ! 0) (asteroids pair)
     (length (asteroids pair)) = None \<and>
   \<not> bulletHits (shot 500 500) (asteroids pair ! 1)"
proof -
  have h: "findHit (bullets pair ! 0) (asteroids pair) (length (asteroids pair)) = Some 1"
    using pair_hit by (simp add: pair_def)
  have b: "bulletHits (bullets pair ! 0) (asteroids pair ! 0)"
    by (simp add: pair_def bulletHits_def shot_def rock_def Let_def)
  have o: "bullets (onHit 0 1 pair) = []"
    by (simp add: onHit_frame pair_def)
  have hit: "(1::nat) < length (asteroids pair) \<and> (0::nat) \<le> 1"
    using bullet_hits_highest_index [of pair 0] h by simp
  have n: "findHit (bullets (pair\<lparr>bullets := [shot 500 500]\<rparr>) ! 0) (asteroids pair)
             (length (asteroids pair)) = None"
    by (simp add: pair_def numeral_2_eq_2 bulletHits_def shot_def rock_def Let_def)
  have "\<forall>k<length (asteroids pair). \<not> bulletHits (shot 500 500) (asteroids pair ! k)"
    using bullet_hits_highest_index [of "pair\<lparr>bullets := [shot 500 500]\<rparr>" 0] n
    by (simp add: pair_def)
  moreover have "1 < length (asteroids pair)"
    by (simp add: pair_def)
  ultimately have miss: "\<not> bulletHits (shot 500 500) (asteroids pair ! 1)"
    by blast
  from h hit b o n miss show ?thesis by simp
qed

text \<open>
  C6 as stated fails: the projectile of \<open>pair\<close> overlaps obstacle 0, yet the pass removes
  obstacle 1, the newer one, and leaves obstacle 0 in place.
\<close>

theorem bullet_hits_newest_first:
  "bulletHits (bullets pair ! 0) (asteroids pair ! 0) \<and>
   asteroids (bulletPass pair) = [rock 100 100 60]"
proof -
  have "bulletLoop (Suc 0) pair = onHit 0 (Suc 0) pair"
    using pair_hit by (simp add: pair_def)
  moreover have "asteroids (onHit 0 (Suc 0) pair) = [rock 100 100 60]"
    by (simp add: onHit_def Let_def pair_def rock_def)
  ultimately have "asteroids (bulletPass pair) = [rock 100 100 60]"
    by (simp add: bulletPass_def pair_def)
  moreover have "bulletHits (bullets pair ! 0) (asteroids pair ! 0)"
    by (simp add: pair_def bulletHits_def shot_def rock_def Let_def)
  ultimately show ?thesis by simp
qed

section \<open>Invincibility window\<close>

lemma update_playing:
  "\<not> gameOver s \<Longrightarrow> update s = maintain (shipPass (beforeShipCheck s))"
  by (simp add: update_def beforeShipCheck_def)

lemma beforeShipCheck_frame:
  "gameOver (beforeShipCheck s) = gameOver s"
  "invincibleTime (beforeShipCheck s) = (if 0 < invincibleTime s then invincibleTime s - 1 else invincibleTime s)"
  by (simp_all add: beforeShipCheck_def bulletPass_frame moveAsteroids_def moveBullets_def
        moveShip_def tickInvincible_def Let_def)

lemma update_invincibleTime:
  "\<not> gameOver s \<Longrightarrow>
     invincibleTime (update s) = (if 0 < invincibleTime s then invincibleTime s - 1 else invincibleTime s)"
  by (simp add: update_playing maintain_frame shipPass_frame beforeShipCheck_frame)

lemma update_gameOver:
  "\<not> gameOver s \<Longrightarrow> gameOver (update s) = (invincibleTime s \<le> 1 \<and> overlapping s)"
  by (auto simp: update_playing maintain_frame shipPass_def beforeShipCheck_frame overlapping_def)

lemma update_invincibleTime_le: "invincibleTime (update s) \<le> invincibleTime s"
  by (cases "gameOver s") (simp_all add: update_invincibleTime, simp add: update_def)

lemma protected_frames:
  assumes "invincibleTime s = 120" and "\<not> gameOver s"
  shows "k \<le> 119 \<Longrightarrow>
           \<not> gameOver ((update ^^ k) s) \<and> invincibleTime ((update ^^ k) s) = 120 - int k"
proof (induction k)
  case 0
  show ?case using assms by simp
next
  case (Suc k)
  then have ih: "\<not> gameOver ((update ^^ k) s)"
      "invincibleTime ((update ^^ k) s) = 120 - int k" and k: "k < 119"
    by simp_all
  have "\<not> gameOver (update ((update ^^ k) s))"
    using ih k by (simp add: update_gameOver)
  moreover have "invincibleTime (update ((update ^^ k) s)) = 120 - int (Suc k)"
    using ih k by (simp add: update_invincibleTime)
  ultimately show ?case by simp
qed

lemma exposed_frames:
  assumes "invincibleTime s = 120" and "\<not> gameOver s"
  shows "119 \<le> k \<Longrightarrow> invincibleTime ((update ^^ k) s) \<le> 1"
proof (induction k)
  case 0
  then show ?case by simp
next
  case (Suc k)
  show ?case
  proof (cases "k = 118")
    case True
    then show ?thesis using protected_frames [OF assms, of 119] by simp
  next
    case False
    with Suc.prems have "119 \<le> k" by simp
    from Suc.IH [OF this] update_invincibleTime_le [of "(update ^^ k) s"]
    show ?thesis by simp
  qed
qed

lemma ambush_step:
  "1 < n \<Longrightarrow> update (ambush\<lparr>invincibleTime := n\<rparr>) = ambush\<lparr>invincibleTime := n - 1\<rparr>"
  by (simp add: update_def tickInvincible_def moveShip_def moveBullets_def moveAsteroids_def
        bulletPass_def shipPass_def maintain_def ambush_def createShip_def rock_def
        moveAsteroid_def wrapPosition_def truthy_def Let_def SHIP_FRICTION_def)

lemma ambush_run:
  "k \<le> 119 \<Longrightarrow> (update ^^ k) ambush = ambush\<lparr>invincibleTime := 120 - int k\<rparr>"
proof (induction k)
  case 0
  show ?case by (simp add: ambush_def)
next
  case (Suc k)
  then have "(update ^^ k) ambush = ambush\<lparr>invincibleTime := 120 - int k\<rparr>" and "k < 119"
    by simp_all
  then show ?case
    using ambush_step [of "120 - int k"] by (simp add: algebra_simps)
qed

lemma ambush_overlapping: "overlapping (ambush\<lparr>invincibleTime := 1\<rparr>)"
  by (simp add: overlapping_def beforeShipCheck_def tickInvincible_def moveShip_def
        moveBullets_def moveAsteroids_def bulletPass_def ambush_def createShip_def rock_def
        moveAsteroid_def wrapPosition_def truthy_def Let_def SHIP_FRICTION_def
        numeral_3_eq_3 shipHits_def SHIP_SIZE_def)

text \<open>
  C2 (as amended). Starting from a fresh reset (invincibility counter 120, state
  \<open>Playing\<close>), no \<open>update()\<close> among the first 119 calls sets \<open>GameOver\<close>, whatever
  overlaps; and in every call from the 120th on that starts in \<open>Playing\<close>, a craft
  overlapping an obstacle at the ship-obstacle check sets \<open>GameOver\<close>. The counter is
  decremented before the check, so the 120th call finds it at 0 and checks already.
\<close>

theorem invincibility_window:
  assumes "invincibleTime s = 120" and "\<not> gameOver s"
  shows "(k \<le> 119 \<longrightarrow> \<not> gameOver ((update ^^ k) s)) \<and>
         (119 \<le> k \<and> \<not> gameOver ((update ^^ k) s) \<and> overlapping ((update ^^ k) s)
            \<longrightarrow> gameOver ((update ^^ Suc k) s))"
proof -
  have "\<not> gameOver ((update ^^ k) s)" if "k \<le> 119"
    using protected_frames [OF assms that] by simp
  moreover have "gameOver ((update ^^ Suc k) s)"
    if "119 \<le> k" "\<not> gameOver ((update ^^ k) s)" "overlapping ((update ^^ k) s)"
    using that exposed_frames [OF assms that(1)] by (simp add: update_gameOver)
  ultimately show ?thesis by blast
qed

theorem invincibility_window_witness:
  "invincibleTime ambush = 120 \<and> \<not> gameOver ambush \<and> (119::nat) \<le> 119 \<and>
   \<not> gameOver ((update ^^ 119) ambush) \<and> overlapping ((update ^^ 119) ambush) \<and>
   gameOver ((update ^^ Suc 119) ambush)"
proof -
  have a: "invincibleTime ambush = 120" "\<not> gameOver ambush"
    by (simp_all add: ambush_def)
  have r: "(update ^^ 119) ambush = ambush\<lparr>invincibleTime := 1\<rparr>"
    using ambush_run [of 119] by simp
  have o: "overlapping ((update ^^ 119) ambush)"
    by (simp only: r ambush_overlapping)
  from invincibility_window [OF a, of 119] a o show ?thesis by simp
qed

text \<open>
  C2 as stated fails: from \<open>ambush\<close>, a state right after a reset with the craft under
  three obstacles, the 120th call of \<open>update()\<close> sets \<open>GameOver\<close>.
\<close>

theorem game_over_at_update_120:
  "invincibleTime ambush = 120 \<and> \<not> gameOver ambush \<and> gameOver ((update ^^ 120) ambush)"
proof -
  have r: "(update ^^ 119) ambush = ambush\<lparr>invincibleTime := 1\<rparr>"
    using ambush_run [of 119] by simp
  have "\<not> gameOver (ambush\<lparr>invincibleTime := 1\<rparr>)"
    by (simp add: ambush_def)
  then have g: "gameOver (update (ambush\<lparr>invincibleTime := 1\<rparr>))"
    using ambush_overlapping by (simp add: update_gameOver)
  have "(120::nat) = Suc 119"
    by simp
  then have "(update ^^ 120) ambush = update ((update ^^ 119) ambush)"
    by (simp only: funpow.simps o_apply)
  then have "gameOver ((update ^^ 120) ambush)"
    using g by (simp only: r)
  then show ?thesis by (simp add: ambush_def)
qed

section \<open>Population maintenance\<close>

lemma maintain_length:
  "length (asteroids (maintain s)) =
     (if length (asteroids s) < 3 then Suc (length (asteroids s)) else length (asteroids s))"
  by (simp add: maintain_def spawnAsteroid_length MAX_ASTEROIDS_def)

lemma beforeShipCheck_no_bullets:
  "bullets s = [] \<Longrightarrow> length (asteroids (beforeShipCheck s)) = length (asteroids s)"
  by (simp add: beforeShipCheck_def bulletPass_def moveAsteroids_def moveBullets_def
        moveShip_def tickInvincible_def Let_def)

text \<open>
  C5 (as amended). In \<open>Playing\<close>, when fewer than 3 obstacles are left after the
  collision pass of an \<open>update()\<close> call, the call spawns exactly one obstacle: the count
  after the call is that count plus one. With no projectile in flight and fewer than 3
  obstacles before the call, the count after is the count before plus one.
\<close>

theorem maintenance_spawns_one:
  assumes "\<not> gameOver s"
  shows "(length (asteroids (beforeShipCheck s)) < 3 \<longrightarrow>
            length (asteroids (update s)) = length (asteroids (beforeShipCheck s)) + 1) \<and>
         (bullets s = [] \<and> length (asteroids s) < 3 \<longrightarrow>
            length (asteroids (update s)) = length (asteroids s) + 1)"
proof -
  have "length (asteroids (update s)) =
          (if length (asteroids (beforeShipCheck s)) < 3
           then Suc (length (asteroids (beforeShipCheck s)))
           else length (asteroids (beforeShipCheck s)))"
    using assms by (simp add: update_playing maintain_length shipPass_frame)
  then show ?thesis
    by (simp add: beforeShipCheck_no_bullets)
qed

theorem maintenance_spawns_one_witness:
  "\<not> gameOver sparse \<and> bullets sparse = [] \<and> length (asteroids sparse) < 3 \<and>
   length (asteroids (beforeShipCheck sparse)) < 3 \<and>
   length (asteroids (update sparse)) = 2"
proof -
  have a: "\<not> gameOver sparse" "bullets sparse = []" "length (asteroids sparse) < 3"
    "length (asteroids sparse) = 1"
    by (simp_all add: sparse_def)
  have b: "length (asteroids (beforeShipCheck sparse)) < 3"
    using a(2,4) by (simp add: beforeShipCheck_no_bullets)
  have "length (asteroids (update sparse)) = length (asteroids sparse) + 1"
    using maintenance_spawns_one [OF a(1)] a(2,3) by blast
  then have "length (asteroids (update sparse)) = 2"
    by (simp add: a(4))
  with a(1-3) b show ?thesis by simp
qed

text \<open>
  C5 as stated fails: \<open>sparse\<close> is in \<open>Playing\<close> with one obstacle, and after
  \<open>update()\<close> it has two obstacles, not three.
\<close>

theorem two_obstacles_after_update:
  "\<not> gameOver sparse \<and> length (asteroids sparse) < 3 \<and>
   \<not> 3 \<le> length (asteroids (update sparse))"
proof -
  have a: "\<not> gameOver sparse" "bullets sparse = []" "length (asteroids sparse) = 1"
    by (simp_all add: sparse_def)
  have "length (asteroids (update sparse)) = 2"
    using a by (simp add: update_playing maintain_length shipPass_frame
          beforeShipCheck_no_bullets)
  with a show ?thesis by simp
qed

section \<open>Fire intent\<close>














section \<open>Geometry produced by getVertices\<close>

lemma even_length_concat:
  "(\<And>x. x \<in> set xs \<Longrightarrow> even (length (f x))) \<Longrightarrow> even (length (concat (map f xs)))"
  by (induction xs) simp_all

lemma even_closedPolygon: "even (length (closedPolygon vs c))"
  unfolding closedPolygon_def by (rule even_length_concat) simp

lemma even_drawChars: "even (length (drawChars i str px py c))"
proof (induction str arbitrary: i)
  case Nil
  show ?case by simp
next
  case (Cons ch rest)
  have "even (length (concat (map (segmentVertices (px + real i * 12) py c)
                                  (getCharacterSegments ch))))"
    by (rule even_length_concat) (simp add: segmentVertices_def split: prod.splits)
  with Cons.IH [of "Suc i"] show ?case by simp
qed

lemma even_drawText: "even (length (drawText str px py c))"
  by (simp add: drawText_def even_drawChars)

lemma even_getVertices: "even (length (fst (getVertices time s)))"
proof -
  have "even (length (concat (map (starVertices time) (stars s))))"
    by (rule even_length_concat) (simp add: starVertices_def Let_def)
  moreover have "even (length (shipVertices time s))"
    by (simp add: shipVertices_def even_closedPolygon flameVertices_def Let_def)
  moreover have "even (length (concat (map asteroidVertices (asteroids s))))"
    by (rule even_length_concat) (simp add: asteroidVertices_def even_closedPolygon)
  moreover have "even (length (concat (map bulletVertices (bullets s))))"
    by (rule even_length_concat) (simp add: bulletVertices_def Let_def)
  moreover have "even (length (statusVertices s))"
    by (simp add: statusVertices_def even_drawText)
  ultimately show ?thesis
    by (simp add: getVertices_def even_drawText)
qed

lemma vcolor_colored: "vcolor (colored px py c) = c"
  by (cases c) (simp add: vcolor_def colored_def)

lemma closedPolygon_color: "v \<in> set (closedPolygon vs c) \<Longrightarrow> vcolor v = c"
  by (auto simp: closedPolygon_def vcolor_colored)

lemma drawChars_color: "v \<in> set (drawChars i str px py c) \<Longrightarrow> vcolor v = c"
proof (induction str arbitrary: i)
  case Nil
  then show ?case by simp
next
  case (Cons ch rest)
  then show ?case
    by (auto simp: segmentVertices_def vcolor_colored split: prod.splits)
qed

lemma drawText_color: "v \<in> set (drawText str px py c) \<Longrightarrow> vcolor v = c"
  unfolding drawText_def by (rule drawChars_color)

lemma star_channels:
  assumes "0 \<le> brightness st" and "brightness st \<le> 1" and "v \<in> set (starVertices time st)"
  shows "channels (12 / 10) (vcolor v)"
proof -
  define tw where "tw = 1 / 2 + (1 / 2) * sin (time * twinkleSpeed st + twinkleOffset st)"
  define br where "br = brightness st * tw"
  have tw: "0 \<le> tw" "tw \<le> 1"
    unfolding tw_def
    using sin_ge_minus_one [of "time * twinkleSpeed st + twinkleOffset st"]
      sin_le_one [of "time * twinkleSpeed st + twinkleOffset st"]
    by linarith+
  have b0: "0 \<le> br"
    unfolding br_def using assms(1) tw(1) by (rule mult_nonneg_nonneg)
  have b1: "br \<le> 1"
    unfolding br_def using assms(2) tw by (rule mult_le_one)
  have "vcolor v = (br, br, br * (12 / 10), 1)"
    using assms(3) by (auto simp: starVertices_def Let_def vcolor_colored tw_def br_def)
  then show ?thesis
    using b0 b1 by (simp add: channels_def)
qed

lemma ship_channels: "v \<in> set (shipVertices time s) \<Longrightarrow> channels 1 (vcolor v)"
  by (auto simp: shipVertices_def flameVertices_def Let_def vcolor_colored channels_def
        shipColor_def dest!: closedPolygon_color split: if_splits)

lemma getVertices_channels:
  assumes "\<forall>st \<in> set (stars s). 0 \<le> brightness st \<and> brightness st \<le> 1"
    and "v \<in> set (fst (getVertices time s))"
  shows "channels (12 / 10) (vcolor v)"
proof -
  have up: "channels (12 / 10) c" if "channels 1 c" for c
    using that by (auto simp: channels_def)
  from assms(2) consider
      (star) st where "st \<in> set (stars s)" "v \<in> set (starVertices time st)"
    | (ship) "v \<in> set (shipVertices time s)"
    | (ast) a where "v \<in> set (asteroidVertices a)"
    | (blt) b where "v \<in> set (bulletVertices b)"
    | (score) "v \<in> set (drawText (''SCORE: '' @ showScore (score s)) 20 30 (1, 1, 1, 1))"
    | (status) "v \<in> set (statusVertices s)"
    by (auto simp: getVertices_def)
  then show ?thesis
  proof cases
    case star
    from assms(1) star(1) have "0 \<le> brightness st" "brightness st \<le> 1"
      by auto
    then show ?thesis using star(2) by (rule star_channels)
  next
    case ship
    then have "channels 1 (vcolor v)" by (rule ship_channels)
    then show ?thesis by (rule up)
  next
    case ast
    then have "vcolor v = (7 / 10, 7 / 10, 7 / 10, 1)"
      by (simp add: asteroidVertices_def closedPolygon_color)
    then show ?thesis by (simp add: channels_def)
  next
    case blt
    then have "vcolor v = (1, 1, 0, 1)"
      by (auto simp: bulletVertices_def Let_def vcolor_colored)
    then show ?thesis by (simp add: channels_def)
  next
    case score
    then have "vcolor v = (1, 1, 1, 1)"
      by (rule drawText_color)
    then show ?thesis by (simp add: channels_def)
  next
    case status
    then have "vcolor v = (1, 0, 0, 1) \<or> vcolor v = (1, 1, 0, 1)"
      by (auto simp: statusVertices_def dest: drawText_color split: if_splits)
    then show ?thesis by (auto simp: channels_def)
  qed
qed


lemma initStars_brightness:
  assumes "\<forall>n. 0 \<le> rand s n \<and> rand s n < 1"
    and "\<forall>st \<in> set (stars s). 0 \<le> brightness st \<and> brightness st \<le> 1"
  shows "\<forall>st \<in> set (stars (initStars n s)). 0 \<le> brightness st \<and> brightness st \<le> 1"
  using assms
proof (induction n arbitrary: s)
  case 0
  then show ?case by simp
next
  case (Suc n)
  let ?r = "rand s (cursor s + 2)"
  let ?s' = "s\<lparr>stars := stars s @
            [\<lparr>star_x = rand s (cursor s) * width s,
              star_y = rand s (cursor s + 1) * height s,
              brightness = 3 / 10 + ?r * (7 / 10),
              twinkleSpeed = 2 / 100 + rand s (cursor s + 3) * (5 / 100),
              twinkleOffset = rand s (cursor s + 4) * pi * 2\<rparr>],
          cursor := cursor s + 5\<rparr>"
  have r: "0 \<le> ?r" "?r < 1"
    using Suc.prems(1) by simp_all
  have b: "0 \<le> 3 / 10 + ?r * (7 / 10)" "3 / 10 + ?r * (7 / 10) \<le> 1"
    using r by simp_all
  have "\<forall>n. 0 \<le> rand ?s' n \<and> rand ?s' n < 1"
    using Suc.prems(1) by simp
  moreover have "\<forall>st \<in> set (stars ?s'). 0 \<le> brightness st \<and> brightness st \<le> 1"
    using Suc.prems(2) b by simp
  ultimately have "\<forall>st \<in> set (stars (initStars n ?s')). 0 \<le> brightness st \<and> brightness st \<le> 1"
    by (rule Suc.IH)
  then show ?case by simp
qed

lemma initStars_length: "length (stars (initStars n s)) = length (stars s) + n"
  by (induction n arbitrary: s) simp_all

lemma update_stars: "stars (update s) = stars s"
proof (cases "gameOver s")
  case True
  then show ?thesis by (simp add: update_def)
next
  case False
  then show ?thesis
    by (simp add: update_def maintain_frame shipPass_frame bulletPass_frame moveShip_frame
          moveAsteroids_def moveBullets_def tickInvincible_def)
qed

lemma fireBullet_stars: "stars (fireBullet s) = stars s"
  by (simp add: fireBullet_def restart_def initAsteroids_frame Let_def)

lemma handleKey_stars: "stars (handleKey code pressed s) = stars s"
  by (simp add: handleKey_def fireBullet_stars Let_def)

lemma reachable_stars:
  "reachable s \<Longrightarrow> \<forall>st \<in> set (stars s). 0 \<le> brightness st \<and> brightness st \<le> 1"
proof (induction rule: reachable.induct)
  case (constructed w h rnd)
  show ?case
    unfolding newGame_def
    by (rule initStars_brightness) (simp_all add: initAsteroids_frame constructed)
next
  case (updated s)
  then show ?case by (simp add: update_stars)
next
  case (rendered s time)
  with getVertices_state [of time s] show ?case by auto
next
  case (keyEvent s code pressed)
  then show ?case by (simp add: handleKey_stars)
next
  case (fireButton s)
  then show ?case by (simp add: fireBullet_stars)
next
  case (thrustButton s pressed)
  then show ?case by simp
qed

text \<open>
  C7 (as amended). For every game state and every time value the vertex sequence returned
  by \<open>getVertices\<close> has even length; and in every reachable state each vertex has its
  channels \<open>r\<close>, \<open>g\<close>, \<open>a\<close> within \<open>[0, 1]\<close> and its channel \<open>b\<close> within \<open>[0, 1.2]\<close>:
  a star's blue channel is its brightness times the twinkle times \<open>1.2\<close>.
\<close>

theorem getVertices_even_and_channels:
  "even (length (fst (getVertices time s))) \<and>
   (reachable s \<longrightarrow>
      (\<forall>v \<in> set (fst (getVertices time s)).
         0 \<le> vert_r v \<and> vert_r v \<le> 1 \<and> 0 \<le> vert_g v \<and> vert_g v \<le> 1 \<and>
         0 \<le> vert_b v \<and> vert_b v \<le> 12 / 10 \<and> 0 \<le> vert_a v \<and> vert_a v \<le> 1))"
proof -
  have "channels (12 / 10) (vcolor v)"
    if "reachable s" "v \<in> set (fst (getVertices time s))" for v
    using reachable_stars [OF that(1)] that(2) by (rule getVertices_channels)
  then show ?thesis
    by (simp add: even_getVertices channels_def vcolor_def)
qed

theorem getVertices_even_and_channels_witness:
  "reachable (newGame 800 600 (\<lambda>n. 1 / 2)) \<and>
   fst (getVertices 0 (newGame 800 600 (\<lambda>n. 1 / 2))) \<noteq> [] \<and>
   vert_b (hd (fst (getVertices 0 (newGame 800 600 (\<lambda>n. 1 / 2))))) \<le> 12 / 10"
proof -
  let ?g = "newGame 800 600 (\<lambda>n. 1 / 2)"
  have r: "reachable ?g"
    by (rule reachable.constructed) simp_all
  have "length (stars ?g) = STAR_COUNT"
    by (simp add: newGame_def initStars_length initAsteroids_frame)
  then have "stars ?g \<noteq> []"
    by (auto simp: STAR_COUNT_def)
  then obtain st sts where "stars ?g = st # sts"
    by (cases "stars ?g") auto
  then have n: "fst (getVertices 0 ?g) \<noteq> []"
    by (simp add: getVertices_def starVertices_def Let_def)
  then have "hd (fst (getVertices 0 ?g)) \<in> set (fst (getVertices 0 ?g))"
    by simp
  with getVertices_even_and_channels [of 0 ?g] r n show ?thesis
    by blast
qed

text \<open>
  C7 as stated fails: the first vertex of \<open>brightStar\<close> at time 0 is the star's, with
  blue channel \<open>0.9 \<times> 1 \<times> 1.2 = 1.08\<close>.
\<close>

theorem star_blue_channel_exceeds_one:
  "1 < vert_b (hd (fst (getVertices 0 brightStar)))"
  by (simp add: getVertices_def brightStar_def starVertices_def Let_def colored_def)

section \<open>Obstacle outlines\<close>












lemma generated_moveAsteroid:
  "generated rnd a \<Longrightarrow> generated rnd (moveAsteroid w h a)"
  by (simp add: moveAsteroid_def)



























lemma lowDraws_reachable: "reachable (newGame 800 600 lowDraws)"
  by (rule reachable.constructed) (simp_all add: lowDraws_def)


end
